theory Spec2Isabelle
  imports Main "HOL-Library.Word"
begin

section \<open>Strings\<close>

text \<open>
  JavaScript strings are modelled as \<open>string\<close>. Header names, paths and URLs are ASCII, so
  one \<open>char\<close> is one code unit. \<open>toLowerCase\<close> is the ASCII lower-casing that the runtime
  applies to header names.
\<close>

definition toLowerCase_char :: "char \<Rightarrow> char" where
  "toLowerCase_char c =
     (if 65 \<le> (of_char c :: nat) \<and> (of_char c :: nat) \<le> 90
      then char_of ((of_char c :: nat) + 32) else c)"

definition toLowerCase :: "string \<Rightarrow> string" where
  "toLowerCase s = map toLowerCase_char s"

text \<open>\<open>s.startsWith(p)\<close> and \<open>s.substring(1)\<close>.\<close>

definition startsWith :: "string \<Rightarrow> string \<Rightarrow> bool" where
  "startsWith s p = (take (length p) s = p)"

definition substring1 :: "string \<Rightarrow> string" where
  "substring1 s = drop 1 s"

text \<open>\<open>n.toString()\<close> for a non-negative integer: its decimal digits.\<close>

fun toString_nat :: "nat \<Rightarrow> string" where
  "toString_nat n =
     (if n < 10 then [''0123456789'' ! n]
      else toString_nat (n div 10) @ [''0123456789'' ! (n mod 10)])"

declare toString_nat.simps [simp del]

text \<open>
  Truthiness of a value that is \<open>null\<close> or a string (\<open>if (targetParam)\<close>,
  \<open>if (CONFIG.DEFAULT_TARGET)\<close>): \<open>null\<close> and the empty string are falsy.
\<close>

fun truthy :: "string option \<Rightarrow> bool" where
  "truthy None = False"
| "truthy (Some s) = (s \<noteq> [])"

section \<open>The Headers object\<close>

text \<open>
  A \<open>Headers\<close> object is a list of (name, value) entries. Names are compared without regard
  to case by every operation; \<open>get\<close> joins the values of all entries of that name with a
  comma and a space, \<open>set\<close> replaces them all by one entry, \<open>delete\<close> drops them all.
  The order of the entries cannot be observed through \<open>get\<close> and \<open>has\<close>.
\<close>

type_synonym Headers = "(string \<times> string) list"

definition same_name :: "string \<Rightarrow> string \<times> string \<Rightarrow> bool" where
  "same_name n e = (toLowerCase (fst e) = toLowerCase n)"

fun join_values :: "string list \<Rightarrow> string" where
  "join_values [] = []"
| "join_values [v] = v"
| "join_values (v # w # vs) = v @ '', '' @ join_values (w # vs)"

definition headers_get :: "Headers \<Rightarrow> string \<Rightarrow> string option" where
  "headers_get h n =
     (case filter (same_name n) h of
        [] \<Rightarrow> None
      | e # es \<Rightarrow> Some (join_values (map snd (e # es))))"

definition headers_has :: "Headers \<Rightarrow> string \<Rightarrow> bool" where
  "headers_has h n = (\<exists>e \<in> set h. same_name n e)"

definition headers_delete :: "Headers \<Rightarrow> string \<Rightarrow> Headers" where
  "headers_delete h n = filter (\<lambda>e. \<not> same_name n e) h"

definition headers_set :: "Headers \<Rightarrow> string \<Rightarrow> string \<Rightarrow> Headers" where
  "headers_set h n v = headers_delete h n @ [(toLowerCase n, v)]"

definition headers_append :: "Headers \<Rightarrow> string \<Rightarrow> string \<Rightarrow> Headers" where
  "headers_append h n v = h @ [(toLowerCase n, v)]"

text \<open>
  An object literal used as a header record is a list of its own properties in insertion
  order. Spreading (\<open>{...a, ...b}\<close>) assigns the properties of \<open>b\<close> over those of \<open>a\<close>,
  property keys being compared exactly. \<open>new Headers(obj)\<close>, which the \<open>Response\<close>
  constructor applies to \<open>init.headers\<close>, appends every property.
\<close>

type_synonym object = "(string \<times> string) list"

fun object_assign1 :: "object \<Rightarrow> string \<Rightarrow> string \<Rightarrow> object" where
  "object_assign1 [] k v = [(k, v)]"
| "object_assign1 ((k', v') # ps) k v =
     (if k' = k then (k, v) # ps else (k', v') # object_assign1 ps k v)"

definition object_spread :: "object \<Rightarrow> object \<Rightarrow> object" where
  "object_spread a b = fold (\<lambda>(k, v) acc. object_assign1 acc k v) b a"

definition new_Headers :: "object \<Rightarrow> Headers" where
  "new_Headers obj = fold (\<lambda>(k, v) h. headers_append h k v) obj []"

section \<open>Configuration\<close>

record cors =
  enabled :: bool
  allowOrigin :: string
  allowMethods :: string
  allowHeaders :: string
  maxAge :: nat

record config =
  DEFAULT_TARGET :: "string option"
  DEBUG :: bool
  MAX_BODY_SIZE :: nat
  TIMEOUT :: nat
  CORS :: cors
  SECURITY_HEADERS :: object
  REMOVE_HEADERS :: "string list"

text \<open>The constant \<open>CONFIG\<close> of the worker. The handlers below take the configuration as
  an argument; the worker runs them on \<open>CONFIG\<close>.\<close>

definition CONFIG :: config where
  "CONFIG = \<lparr>
     DEFAULT_TARGET = None,
     DEBUG = False,
     MAX_BODY_SIZE = 10 * 1024 * 1024,
     TIMEOUT = 30000,
     CORS = \<lparr>
       enabled = True,
       allowOrigin = ''*'',
       allowMethods = ''GET, POST, PUT, DELETE, OPTIONS, HEAD, PATCH'',
       allowHeaders = ''*'',
       maxAge = 86400 \<rparr>,
     SECURITY_HEADERS = [
       (''X-Content-Type-Options'', ''nosniff''),
       (''X-Frame-Options'', ''SAMEORIGIN''),
       (''X-XSS-Protection'', ''1; mode=block''),
       (''Referrer-Policy'', ''strict-origin-when-cross-origin'')],
     REMOVE_HEADERS = [
       ''cf-ray'',
       ''cf-connecting-ip'',
       ''cf-visitor'',
       ''cf-request-id'',
       ''x-forwarded-for'',
       ''x-forwarded-proto'',
       ''x-real-ip''] \<rparr>"

section \<open>URLs, requests and responses\<close>

text \<open>
  A \<open>URL\<close> object, with the properties the worker reads. \<open>protocol\<close> ends with the colon
  (\<open>''https:''\<close>), \<open>host\<close> is host name and port, \<open>search\<close> and \<open>hash\<close> carry
  their leading \<open>?\<close> and \<open>#\<close>, \<open>searchParams\<close> is the decoded list of query parameters.
\<close>

record URL =
  protocol :: string
  username :: string
  password :: string
  host :: string
  pathname :: string
  search :: string
  searchParams :: "(string \<times> string) list"
  hash :: string

text \<open>\<open>url.searchParams.get(name)\<close>: the first value of that name, or \<open>null\<close>.\<close>

definition searchParams_get :: "URL \<Rightarrow> string \<Rightarrow> string option" where
  "searchParams_get u n = map_of (searchParams u) n"

text \<open>
  \<open>url.toString()\<close>, the serialisation of a URL that has an authority.
\<close>

definition URL_toString :: "URL \<Rightarrow> string" where
  "URL_toString u =
     protocol u @ ''//'' @
     (if username u \<noteq> [] \<or> password u \<noteq> []
      then username u @ (if password u \<noteq> [] then '':'' @ password u else []) @ ''@''
      else []) @
     host u @ pathname u @ search u @ hash u"

text \<open>
  The assignment \<open>targetUrl.protocol = p\<close>. The worker only assigns \<open>ws:\<close> to an
  \<open>http:\<close> URL and \<open>wss:\<close> to an \<open>https:\<close> URL. Both schemes of each pair are
  special and share the default port, so the assignment replaces the scheme and nothing else.
\<close>

definition set_protocol :: "URL \<Rightarrow> string \<Rightarrow> URL" where
  "set_protocol u p = u\<lparr>protocol := p\<rparr>"

text \<open>
  A body is \<open>null\<close>, an opaque stream of the caller or of the target, a plain text, or one of
  the two JSON documents the worker produces: the \<open>info\<close> object of \<open>createInfoResponse\<close>
  and the \<open>errorResponse\<close> object of \<open>handleError\<close> with its \<open>error\<close> flag and its
  \<open>message\<close> (its \<open>timestamp\<close> is the reading of the clock and is left out).
\<close>

datatype body = Null | Stream string | Text string | InfoDocument | ErrorDocument bool string

record request =
  request_method :: string
  url :: URL
  headers :: Headers
  body :: body
  redirect :: string

record response =
  status :: nat
  statusText :: string
  resp_headers :: Headers
  resp_body :: body
  webSocket :: bool

section \<open>WebSockets\<close>

datatype readyState = CONNECTING | OPEN | CLOSING | CLOSED

datatype payload = TextData string | BinaryData "8 word list"

text \<open>A socket: its \<open>readyState\<close> and the messages handed to \<open>send\<close> for transmission.\<close>

record WebSocket =
  readyState :: readyState
  sent :: "payload list"

text \<open>
  \<open>ws.close()\<close> starts the closing handshake unless the socket is closing or closed already.
  \<open>ws.send(data)\<close> throws on a socket that is still connecting, transmits on an open one and
  discards on a closing or closed one.
\<close>

definition ws_close :: "WebSocket \<Rightarrow> WebSocket" where
  "ws_close w =
     (if readyState w = CLOSING \<or> readyState w = CLOSED then w
      else w\<lparr>readyState := CLOSING\<rparr>)"

definition ws_send :: "WebSocket \<Rightarrow> payload \<Rightarrow> string + WebSocket" where
  "ws_send w d =
     (case readyState w of
        CONNECTING \<Rightarrow> Inl ''InvalidStateError''
      | OPEN \<Rightarrow> Inr (w\<lparr>sent := sent w @ [d]\<rparr>)
      | _ \<Rightarrow> Inr w)"

text \<open>
  A relay session: the worker's end \<open>serverWs\<close> of the socket pair, the socket \<open>targetWs\<close>
  dialled to the target (\<open>None\<close> when the \<open>WebSocket\<close> constructor threw, in which case no
  listener was installed), the URL that was dialled, and the exceptions that escaped a listener.
\<close>

record session =
  dialUrl :: string
  serverWs :: WebSocket
  targetWs :: "WebSocket option"
  uncaught :: "string list"

section \<open>Results of a handler\<close>

text \<open>
  The outbound call of \<open>fetch\<close> settles after some milliseconds with a response or with an
  error message, or never settles. A handler returns a response at some time after the
  request arrived, or never returns. Next to that, the outcome of a handler records the
  outbound \<open>fetch\<close> calls it made and the relay session it created.
\<close>

datatype fetch_outcome = Fulfilled nat response | Rejected nat string | Unsettled

datatype completion = Returns nat response | NeverReturns

record outcome =
  calls :: "request list"
  relay :: "session option"
  completion :: completion

section \<open>The handlers\<close>

text \<open>
  The runtime enters the handlers as arguments: \<open>new_URL\<close> is the \<open>URL\<close> constructor
  (\<open>Inl\<close> the message of the \<open>TypeError\<close> it throws on a string that is not an absolute
  URL), \<open>new_WebSocket\<close> is the \<open>WebSocket\<close> constructor (\<open>Some\<close> the message of the
  exception when it throws, \<open>None\<close> when it starts the dial) and \<open>fetch\<close> is the outbound
  call. What the handlers do holds for every such runtime.
\<close>

subsection \<open>handleCORS\<close>

definition handleCORS :: "config \<Rightarrow> response" where
  "handleCORS cfg =
     \<lparr> status = 204,
       statusText = [],
       resp_headers = new_Headers [
         (''Access-Control-Allow-Origin'', allowOrigin (CORS cfg)),
         (''Access-Control-Allow-Methods'', allowMethods (CORS cfg)),
         (''Access-Control-Allow-Headers'', allowHeaders (CORS cfg)),
         (''Access-Control-Max-Age'', toString_nat (maxAge (CORS cfg)))],
       resp_body = Null,
       webSocket = False \<rparr>"

subsection \<open>createInfoResponse and handleError\<close>

definition createInfoResponse :: "config \<Rightarrow> response" where
  "createInfoResponse cfg =
     \<lparr> status = 200,
       statusText = [],
       resp_headers = new_Headers
         (object_spread [(''Content-Type'', ''application/json'')] (SECURITY_HEADERS cfg)),
       resp_body = InfoDocument,
       webSocket = False \<rparr>"

text \<open>An error is modelled by its \<open>message\<close>; a missing message is the empty string.\<close>

definition handleError :: "config \<Rightarrow> string \<Rightarrow> response" where
  "handleError cfg message =
     \<lparr> status = 500,
       statusText = [],
       resp_headers = new_Headers
         (object_spread [(''Content-Type'', ''application/json'')] (SECURITY_HEADERS cfg)),
       resp_body = ErrorDocument True
         (if message \<noteq> [] then message else ''Internal server error''),
       webSocket = False \<rparr>"

subsection \<open>connectWebSocket\<close>

text \<open>
  The listeners that \<open>connectWebSocket\<close> installs. An event names the socket it fires on:
  \<open>Server\<close> is \<open>serverWs\<close>, \<open>Target\<close> is \<open>targetWs\<close>.
\<close>

datatype side = Server | Target

datatype event = Opened side | Message side payload | Close side | Error side

fun other :: "side \<Rightarrow> side" where
  "other Server = Target"
| "other Target = Server"

text \<open>The socket of a side, when the session has it.\<close>

fun socket :: "side \<Rightarrow> session \<Rightarrow> WebSocket option" where
  "socket Server s = Some (serverWs s)"
| "socket Target s = targetWs s"

fun put_socket :: "side \<Rightarrow> WebSocket \<Rightarrow> session \<Rightarrow> session" where
  "put_socket Server w s = s\<lparr>serverWs := w\<rparr>"
| "put_socket Target w s = s\<lparr>targetWs := Some w\<rparr>"

text \<open>
  The \<open>message\<close> listener of one socket sends \<open>event.data\<close> on the other socket if that one
  is open. An exception of \<open>send\<close> would escape the listener.
\<close>

definition on_message :: "side \<Rightarrow> payload \<Rightarrow> session \<Rightarrow> session" where
  "on_message sd d s =
     (case socket (other sd) s of
        None \<Rightarrow> s
      | Some dest \<Rightarrow>
          if readyState dest = OPEN
          then (case ws_send dest d of
                  Inr dest' \<Rightarrow> put_socket (other sd) dest' s
                | Inl err \<Rightarrow> s\<lparr>uncaught := uncaught s @ [err]\<rparr>)
          else s)"

text \<open>The \<open>close\<close> and the \<open>error\<close> listener of one socket close the other socket if that
  one is open.\<close>

definition on_close :: "side \<Rightarrow> session \<Rightarrow> session" where
  "on_close sd s =
     (case socket (other sd) s of
        None \<Rightarrow> s
      | Some peer \<Rightarrow>
          if readyState peer = OPEN then put_socket (other sd) (ws_close peer) s else s)"

definition on_error :: "side \<Rightarrow> session \<Rightarrow> session" where
  "on_error sd s =
     (case socket (other sd) s of
        None \<Rightarrow> s
      | Some peer \<Rightarrow>
          if readyState peer = OPEN then put_socket (other sd) (ws_close peer) s else s)"

text \<open>Listeners exist only when the \<open>WebSocket\<close> constructor returned a socket; the worker
  has no \<open>open\<close> listener.\<close>

fun listener :: "event \<Rightarrow> session \<Rightarrow> session" where
  "listener (Opened sd) s = s"
| "listener (Message sd d) s = (if targetWs s = None then s else on_message sd d s)"
| "listener (Close sd) s = (if targetWs s = None then s else on_close sd s)"
| "listener (Error sd) s = (if targetWs s = None then s else on_error sd s)"

text \<open>
  What the runtime itself does to the socket an event fires on, before the listeners run:
  a connecting socket that opens becomes \<open>OPEN\<close>, and a socket is \<open>CLOSED\<close> when its
  \<open>close\<close> event fires.
\<close>

fun runtime :: "event \<Rightarrow> session \<Rightarrow> session" where
  "runtime (Opened sd) s =
     (case socket sd s of
        None \<Rightarrow> s
      | Some w \<Rightarrow> if readyState w = CONNECTING then put_socket sd (w\<lparr>readyState := OPEN\<rparr>) s else s)"
| "runtime (Close sd) s =
     (case socket sd s of
        None \<Rightarrow> s
      | Some w \<Rightarrow> put_socket sd (w\<lparr>readyState := CLOSED\<rparr>) s)"
| "runtime (Message sd d) s = s"
| "runtime (Error sd) s = s"

definition dispatch :: "event \<Rightarrow> session \<Rightarrow> session" where
  "dispatch ev s = listener ev (runtime ev s)"

definition run :: "event list \<Rightarrow> session \<Rightarrow> session" where
  "run evs s = fold dispatch evs s"

definition connectWebSocket ::
  "(string \<Rightarrow> string option) \<Rightarrow> WebSocket \<Rightarrow> string \<Rightarrow> session" where
  "connectWebSocket new_WebSocket server targetUrl =
     (case new_WebSocket targetUrl of
        None \<Rightarrow>
          \<lparr> dialUrl = targetUrl, serverWs = server,
            targetWs = Some \<lparr>readyState = CONNECTING, sent = []\<rparr>, uncaught = [] \<rparr>
      | Some error \<Rightarrow>
          \<lparr> dialUrl = targetUrl, serverWs = ws_close server,
            targetWs = None, uncaught = [] \<rparr>)"

text \<open>The listeners of a session are installed exactly when the target socket exists.\<close>

definition wired :: "session \<Rightarrow> bool" where
  "wired s = (targetWs s \<noteq> None)"

subsection \<open>handleWebSocket\<close>

text \<open>\<open>new Response(text, { status })\<close>: a text body brings its content type.\<close>

definition text_response :: "string \<Rightarrow> nat \<Rightarrow> response" where
  "text_response t st =
     \<lparr> status = st, statusText = [],
       resp_headers = [(''content-type'', ''text/plain;charset=UTF-8'')],
       resp_body = Text t, webSocket = False \<rparr>"

text \<open>\<open>server.accept()\<close> on the worker's end of a new \<open>WebSocketPair\<close>: the socket is open.\<close>

definition accepted_server :: WebSocket where
  "accepted_server = \<lparr>readyState = OPEN, sent = []\<rparr>"

definition handleWebSocket ::
  "(string \<Rightarrow> string + URL) \<Rightarrow> (string \<Rightarrow> string option) \<Rightarrow> request \<Rightarrow> URL \<Rightarrow> outcome" where
  "handleWebSocket new_URL new_WebSocket request requestUrl =
     (case searchParams_get requestUrl ''target'' of
        None \<Rightarrow>
          \<lparr> calls = [], relay = None,
            completion = Returns 0
              (text_response ''Missing target parameter for WebSocket'' 400) \<rparr>
      | Some targetParam \<Rightarrow>
          if targetParam = [] then
            \<lparr> calls = [], relay = None,
              completion = Returns 0
                (text_response ''Missing target parameter for WebSocket'' 400) \<rparr>
          else
            (case new_URL targetParam of
               Inl message \<Rightarrow>
                 \<lparr> calls = [], relay = None,
                   completion = Returns 0
                     (text_response (''WebSocket error: '' @ message) 400) \<rparr>
             | Inr parsed \<Rightarrow>
                 (let targetUrl =
                        (if protocol parsed = ''http:'' then set_protocol parsed ''ws:''
                         else if protocol parsed = ''https:'' then set_protocol parsed ''wss:''
                         else parsed)
                  in \<lparr> calls = [],
                       relay = Some (connectWebSocket new_WebSocket accepted_server
                                       (URL_toString targetUrl)),
                       completion = Returns 0
                         \<lparr> status = 101, statusText = [], resp_headers = [],
                           resp_body = Null, webSocket = True \<rparr> \<rparr>)))"

subsection \<open>handleHTTP\<close>

text \<open>
  The choice of the target string at the head of \<open>handleHTTP\<close>; \<open>None\<close> is the branch that
  returns \<open>createInfoResponse()\<close>.
\<close>

definition handleHTTP_target :: "config \<Rightarrow> URL \<Rightarrow> string option" where
  "handleHTTP_target cfg requestUrl =
     (let targetParam = searchParams_get requestUrl ''target'';
          pathTarget = substring1 (pathname requestUrl)
      in if truthy targetParam then targetParam
         else if pathTarget \<noteq> [] \<and> startsWith pathTarget ''http'' then Some pathTarget
         else if truthy (DEFAULT_TARGET cfg)
           then map_option (\<lambda>d. d @ pathname requestUrl @ search requestUrl) (DEFAULT_TARGET cfg)
         else None)"

text \<open>The headers of the outbound request: a copy of the inbound ones, without the entries of
  \<open>REMOVE_HEADERS\<close>, with \<open>Host\<close> set and \<open>Origin\<close> deleted, in this order.\<close>

definition request_headers :: "config \<Rightarrow> Headers \<Rightarrow> URL \<Rightarrow> Headers" where
  "request_headers cfg hs target =
     headers_delete
       (headers_set (fold (\<lambda>header h. headers_delete h header) (REMOVE_HEADERS cfg) hs)
          ''Host'' (host target))
       ''Origin''"

text \<open>The headers of the reply: those of the target's response, then the CORS headers if
  enabled, then every security header, then without the entries of \<open>REMOVE_HEADERS\<close>.\<close>

definition response_headers :: "config \<Rightarrow> Headers \<Rightarrow> Headers" where
  "response_headers cfg hs =
     (let h1 = (if enabled (CORS cfg)
                then headers_set
                       (headers_set
                          (headers_set hs ''Access-Control-Allow-Origin'' (allowOrigin (CORS cfg)))
                          ''Access-Control-Allow-Methods'' (allowMethods (CORS cfg)))
                       ''Access-Control-Allow-Headers'' (allowHeaders (CORS cfg))
                else hs);
          h2 = fold (\<lambda>(key, value) h. headers_set h key value) (SECURITY_HEADERS cfg) h1
      in fold (\<lambda>header h. headers_delete h header) (REMOVE_HEADERS cfg) h2)"

definition modifiedRequest :: "config \<Rightarrow> request \<Rightarrow> URL \<Rightarrow> request" where
  "modifiedRequest cfg request target =
     \<lparr> request_method = request_method request,
       url = target,
       headers = request_headers cfg (headers request) target,
       body = body request,
       redirect = ''follow'' \<rparr>"

text \<open>
  \<open>new Response(body, { status, statusText, headers })\<close> without a \<open>webSocket\<close>: the
  constructor throws a \<open>RangeError\<close> when the status is outside 200 to 599, and a
  \<open>TypeError\<close> when a body comes with a status that allows none. \<open>Inl\<close> is the message
  of the exception. (The responses that the worker builds itself have a constant status
  in that range and a fitting body, or status 101 together with a \<open>webSocket\<close>, which the
  runtime accepts.)
\<close>

definition new_Response :: "body \<Rightarrow> nat \<Rightarrow> string \<Rightarrow> Headers \<Rightarrow> string + response" where
  "new_Response b st stText hs =
     (if st < 200 \<or> 599 < st
      then Inl ''Responses may only be constructed with status codes in the range 200 to 599, inclusive.''
      else if b \<noteq> Null \<and> st \<in> {204, 205, 304}
      then Inl ''Response with null body status (101, 204, 205, or 304) cannot have a body.''
      else Inr \<lparr> status = st, statusText = stText, resp_headers = hs,
                 resp_body = b, webSocket = False \<rparr>)"

text \<open>The response is constructed from the target's response, then its headers are set and
  deleted; an exception of the constructor is caught by \<open>handleHTTP\<close>.\<close>

definition modifiedResponse :: "config \<Rightarrow> response \<Rightarrow> string + response" where
  "modifiedResponse cfg response =
     (case new_Response (resp_body response) (status response) (statusText response)
             (resp_headers response) of
        Inl message \<Rightarrow> Inl message
      | Inr r \<Rightarrow> Inr (r\<lparr>resp_headers := response_headers cfg (resp_headers r)\<rparr>))"

definition handleHTTP ::
  "config \<Rightarrow> (string \<Rightarrow> string + URL) \<Rightarrow> (request \<Rightarrow> fetch_outcome) \<Rightarrow> request \<Rightarrow> URL \<Rightarrow> outcome" where
  "handleHTTP cfg new_URL fetch request requestUrl =
     (case handleHTTP_target cfg requestUrl of
        None \<Rightarrow> \<lparr> calls = [], relay = None, completion = Returns 0 (createInfoResponse cfg) \<rparr>
      | Some targetUrl \<Rightarrow>
          (case new_URL targetUrl of
             Inl message \<Rightarrow>
               \<lparr> calls = [], relay = None, completion = Returns 0 (handleError cfg message) \<rparr>
           | Inr target \<Rightarrow>
               \<lparr> calls = [modifiedRequest cfg request target],
                 relay = None,
                 completion =
                   (case fetch (modifiedRequest cfg request target) of
                      Fulfilled t response \<Rightarrow>
                        (case modifiedResponse cfg response of
                           Inr r \<Rightarrow> Returns t r
                         | Inl message \<Rightarrow> Returns t (handleError cfg message))
                    | Rejected t message \<Rightarrow> Returns t (handleError cfg message)
                    | Unsettled \<Rightarrow> NeverReturns) \<rparr>))"

subsection \<open>The exported fetch handler\<close>

text \<open>
  The request carries its URL already parsed: \<open>new URL(request.url)\<close> cannot throw on the
  URL of a request the runtime delivers. No exception leaves \<open>handleWebSocket\<close> or
  \<open>handleHTTP\<close>, so the \<open>catch\<close> of the exported handler has nothing to catch.
\<close>

definition worker_fetch ::
  "config \<Rightarrow> (string \<Rightarrow> string + URL) \<Rightarrow> (string \<Rightarrow> string option) \<Rightarrow>
   (request \<Rightarrow> fetch_outcome) \<Rightarrow> request \<Rightarrow> outcome" where
  "worker_fetch cfg new_URL new_WebSocket fetch request =
     (if request_method request = ''OPTIONS''
      then \<lparr> calls = [], relay = None, completion = Returns 0 (handleCORS cfg) \<rparr>
      else if headers_get (headers request) ''Upgrade'' = Some ''websocket''
        then handleWebSocket new_URL new_WebSocket request (url request)
        else handleHTTP cfg new_URL fetch request (url request))"

section \<open>A runtime for examples\<close>

text \<open>
  The examples below are evaluated with \<open>parse_URL\<close>, which reads the URLs of the shape
  \<open>scheme://authority/path?query#fragment\<close> whose scheme is one of \<open>http\<close>, \<open>https\<close>,
  \<open>ws\<close>, \<open>wss\<close>, whose authority is a plain host (with port), and whose query needs no
  decoding. On every other string it reports \<open>Invalid URL\<close>; among them are all the
  strings without a colon, which no URL parser accepts as an absolute URL.
\<close>

fun split_on :: "char \<Rightarrow> string \<Rightarrow> string list" where
  "split_on c [] = [[]]"
| "split_on c (x # xs) =
     (if x = c then [] # split_on c xs
      else (case split_on c xs of [] \<Rightarrow> [[x]] | w # ws \<Rightarrow> (x # w) # ws))"

definition parse_query :: "string \<Rightarrow> (string \<times> string) list" where
  "parse_query q =
     map (\<lambda>piece. (takeWhile (\<lambda>c. c \<noteq> CHR ''='') piece,
                    drop (Suc (length (takeWhile (\<lambda>c. c \<noteq> CHR ''='') piece))) piece))
       (filter (\<lambda>piece. piece \<noteq> []) (split_on CHR ''&'' (drop 1 q)))"

definition parse_URL :: "string \<Rightarrow> string + URL" where
  "parse_URL s =
     (let scheme = takeWhile (\<lambda>c. c \<noteq> CHR '':'') s;
          rest = drop (length scheme) s;
          r0 = drop 3 rest;
          authority = takeWhile (\<lambda>c. c \<notin> {CHR ''/'', CHR ''?'', CHR ''#''}) r0;
          r1 = drop (length authority) r0;
          path = takeWhile (\<lambda>c. c \<notin> {CHR ''?'', CHR ''#''}) r1;
          r2 = drop (length path) r1;
          query = takeWhile (\<lambda>c. c \<noteq> CHR ''#'') r2;
          fragment = drop (length query) r2
      in if scheme \<in> {''http'', ''https'', ''ws'', ''wss''} \<and> startsWith rest ''://''
            \<and> authority \<noteq> [] \<and> CHR ''@'' \<notin> set authority
            \<and> CHR ''%'' \<notin> set query \<and> CHR ''+'' \<notin> set query
         then Inr \<lparr> protocol = scheme @ '':'',
                    username = [],
                    password = [],
                    host = authority,
                    pathname = (if path = [] then ''/'' else path),
                    search = (if query = ''?'' then [] else query),
                    searchParams = parse_query query,
                    hash = (if fragment = ''#'' then [] else fragment) \<rparr>
         else Inl (''Invalid URL: '' @ s))"

text \<open>A target that answers every call at once with status 200, with an
  \<open>Access-Control-Allow-Origin\<close> of its own and a \<open>cf-ray\<close> header.\<close>

definition echo_response :: response where
  "echo_response =
     \<lparr> status = 200, statusText = ''OK'',
       resp_headers = [(''content-type'', ''text/plain''),
                       (''access-control-allow-origin'', ''https://evil.example''),
                       (''cf-ray'', ''abc'')],
       resp_body = Stream ''payload'',
       webSocket = False \<rparr>"

definition echo_fetch :: "request \<Rightarrow> fetch_outcome" where
  "echo_fetch r = Fulfilled 0 echo_response"

text \<open>A \<open>WebSocket\<close> constructor that accepts the \<open>ws:\<close> and \<open>wss:\<close> URLs and throws on
  the others.\<close>

definition dial :: "string \<Rightarrow> string option" where
  "dial u = (if startsWith u ''ws://'' \<or> startsWith u ''wss://'' then None
             else Some ''SyntaxError'')"

text \<open>A preflight request that also carries a target, a path target and an upgrade header.\<close>

definition options_request :: request where
  "options_request =
     \<lparr> request_method = ''OPTIONS'',
       url = \<lparr> protocol = ''https:'', username = [], password = [], host = ''worker.example'',
               pathname = ''/https://example.test/data'', search = ''?target=https://example.test/'',
               searchParams = [(''target'', ''https://example.test/'')], hash = [] \<rparr>,
       headers = [(''origin'', ''https://app.example''), (''upgrade'', ''websocket'')],
       body = Null,
       redirect = ''follow'' \<rparr>"


text \<open>Request URLs of the worker, as the runtime parses them.\<close>

definition worker_url :: "string \<Rightarrow> string \<Rightarrow> (string \<times> string) list \<Rightarrow> URL" where
  "worker_url path query params =
     \<lparr> protocol = ''https:'', username = [], password = [], host = ''worker.example'',
       pathname = path, search = query, searchParams = params, hash = [] \<rparr>"


text \<open>\<open>GET /?target=https://example.test/data\<close>, \<open>GET /https://example.test/data\<close>,
  \<open>GET /api/items?page=2\<close> and \<open>GET /?target=not-a-url\<close>.\<close>

definition query_target_url :: URL where
  "query_target_url =
     worker_url ''/'' ''?target=https://example.test/data'' [(''target'', ''https://example.test/data'')]"


definition plain_url :: URL where
  "plain_url = worker_url ''/api/items'' ''?page=2'' [(''page'', ''2'')]"

definition malformed_target_url :: URL where
  "malformed_target_url = worker_url ''/'' ''?target=not-a-url'' [(''target'', ''not-a-url'')]"

definition get_request :: "URL \<Rightarrow> request" where
  "get_request u =
     \<lparr> request_method = ''GET'', url = u,
       headers = [(''accept'', ''*/*''),
                  (''cf-connecting-ip'', ''203.0.113.7''),
                  (''X-Forwarded-For'', ''203.0.113.7''),
                  (''origin'', ''https://app.example''),
                  (''host'', ''worker.example'')],
       body = Null, redirect = ''follow'' \<rparr>"

definition upgrade_request :: "URL \<Rightarrow> request" where
  "upgrade_request u =
     \<lparr> request_method = ''GET'', url = u,
       headers = [(''upgrade'', ''websocket''), (''connection'', ''Upgrade'')],
       body = Null, redirect = ''follow'' \<rparr>"

text \<open>The configuration of the worker with a default target.\<close>

definition CONFIG_with_default :: config where
  "CONFIG_with_default = CONFIG\<lparr>DEFAULT_TARGET := Some ''https://api.example.com''\<rparr>"

text \<open>Upgrade requests: \<open>/https://example.test/socket\<close> without a query,
  \<open>/?target=https://x.example/y\<close>, \<open>/?target=http://x.example:8080/y?room=1\<close> and
  \<open>/?target=wss://echo.example/socket\<close>.\<close>

definition path_only_upgrade_url :: URL where
  "path_only_upgrade_url = worker_url ''/https://example.test/socket'' [] []"

definition https_upgrade_url :: URL where
  "https_upgrade_url =
     worker_url ''/'' ''?target=https://x.example/y'' [(''target'', ''https://x.example/y'')]"

definition http_upgrade_url :: URL where
  "http_upgrade_url =
     worker_url ''/'' ''?target=http://x.example:8080/y?room=1''
       [(''target'', ''http://x.example:8080/y?room=1'')]"

definition wss_upgrade_url :: URL where
  "wss_upgrade_url =
     worker_url ''/'' ''?target=wss://echo.example/socket''
       [(''target'', ''wss://echo.example/socket'')]"

text \<open>A session in which both sockets are open, and one whose target socket is still
  connecting.\<close>

definition relaying_session :: session where
  "relaying_session =
     \<lparr> dialUrl = ''wss://echo.example/socket'',
       serverWs = \<lparr>readyState = OPEN, sent = []\<rparr>,
       targetWs = Some \<lparr>readyState = OPEN, sent = []\<rparr>,
       uncaught = [] \<rparr>"

definition connecting_session :: session where
  "connecting_session =
     connectWebSocket dial accepted_server ''wss://echo.example/socket''"

text \<open>
  A configuration keeps its header names apart when, names compared without regard to case,
  no security header is configured twice, the security headers do not set
  \<open>Access-Control-Allow-Origin\<close>, and the removal list names neither that header nor a
  security header. \<open>CONFIG\<close> does.
\<close>

definition header_names_separate :: "config \<Rightarrow> bool" where
  "header_names_separate cfg =
     (let removed = map toLowerCase (REMOVE_HEADERS cfg);
          security = map (\<lambda>e. toLowerCase (fst e)) (SECURITY_HEADERS cfg)
      in distinct security
         \<and> toLowerCase ''Access-Control-Allow-Origin'' \<notin> set security
         \<and> toLowerCase ''Access-Control-Allow-Origin'' \<notin> set removed
         \<and> (\<forall>k \<in> set security. k \<notin> set removed))"

text \<open>A target that answers after 60 seconds, and one that never answers.\<close>

definition late_response :: response where
  "late_response =
     \<lparr> status = 200, statusText = ''OK'', resp_headers = [(''content-type'', ''text/plain'')],
       resp_body = Stream ''late'', webSocket = False \<rparr>"

definition slow_fetch :: "request \<Rightarrow> fetch_outcome" where
  "slow_fetch r = Fulfilled 60000 late_response"

definition silent_fetch :: "request \<Rightarrow> fetch_outcome" where
  "silent_fetch r = Unsettled"

text \<open>
  A request whose \<open>Upgrade\<close> header is \<open>WebSocket\<close>, which is not the string that the
  worker tests for, and a target that accepts the upgrade with status 101.
\<close>

definition mixed_case_upgrade_request :: "URL \<Rightarrow> request" where
  "mixed_case_upgrade_request u =
     \<lparr> request_method = ''GET'', url = u,
       headers = [(''upgrade'', ''WebSocket''), (''connection'', ''Upgrade'')],
       body = Null, redirect = ''follow'' \<rparr>"

definition switching_response :: response where
  "switching_response =
     \<lparr> status = 101, statusText = ''Switching Protocols'',
       resp_headers = [(''upgrade'', ''websocket''), (''connection'', ''Upgrade'')],
       resp_body = Null, webSocket = True \<rparr>"

definition switching_fetch :: "request \<Rightarrow> fetch_outcome" where
  "switching_fetch r = Fulfilled 0 switching_response"

section \<open>Properties of the Headers operations\<close>

lemma toLowerCase_char_idem: "toLowerCase_char (toLowerCase_char c) = toLowerCase_char c"
  by (simp add: toLowerCase_char_def)

lemma toLowerCase_idem: "toLowerCase (toLowerCase s) = toLowerCase s"
  by (simp add: toLowerCase_def toLowerCase_char_idem)

lemma same_name_lower: "same_name m (toLowerCase n, v) = (toLowerCase n = toLowerCase m)"
  by (simp add: same_name_def toLowerCase_idem)

lemma headers_has_filter: "headers_has h n = (filter (same_name n) h \<noteq> [])"
  by (auto simp: headers_has_def filter_empty_conv)

lemma headers_get_None: "(headers_get h n = None) = (\<not> headers_has h n)"
  by (simp add: headers_get_def headers_has_filter split: list.splits)

lemma same_name_cong: "toLowerCase n = toLowerCase m \<Longrightarrow> same_name n = same_name m"
  by (rule ext) (simp add: same_name_def)

lemma filter_same_name_delete:
  "filter (same_name m) (headers_delete h n) =
     (if toLowerCase m = toLowerCase n then [] else filter (same_name m) h)"
  unfolding headers_delete_def filter_filter
  by (auto simp: same_name_def filter_empty_conv intro!: filter_cong)

lemma headers_get_delete:
  "headers_get (headers_delete h n) m =
     (if toLowerCase m = toLowerCase n then None else headers_get h m)"
  by (simp add: headers_get_def filter_same_name_delete)

lemma headers_has_delete:
  "headers_has (headers_delete h n) m = (headers_has h m \<and> toLowerCase m \<noteq> toLowerCase n)"
  by (auto simp: headers_has_filter filter_same_name_delete)

lemma headers_get_set:
  "headers_get (headers_set h n v) m =
     (if toLowerCase m = toLowerCase n then Some v else headers_get h m)"
  by (auto simp: headers_get_def headers_set_def filter_same_name_delete same_name_lower)

lemma headers_has_set:
  "headers_has (headers_set h n v) m = (toLowerCase m = toLowerCase n \<or> headers_has h m)"
  by (auto simp: headers_has_filter headers_set_def filter_same_name_delete same_name_lower)

lemma headers_get_fold_delete:
  "headers_get (fold (\<lambda>header h. headers_delete h header) ns h) m =
     (if toLowerCase m \<in> toLowerCase ` set ns then None else headers_get h m)"
  by (induction ns arbitrary: h) (auto simp: headers_get_delete)

lemma headers_has_fold_delete:
  "headers_has (fold (\<lambda>header h. headers_delete h header) ns h) m =
     (headers_has h m \<and> toLowerCase m \<notin> toLowerCase ` set ns)"
  by (induction ns arbitrary: h) (auto simp: headers_has_delete)

lemma headers_get_fold_set_other:
  "toLowerCase m \<notin> toLowerCase ` fst ` set kvs \<Longrightarrow>
   headers_get (fold (\<lambda>(key, value) h. headers_set h key value) kvs h) m = headers_get h m"
  by (induction kvs arbitrary: h) (auto simp: headers_get_set)

lemma headers_get_fold_set_member:
  "distinct (map (\<lambda>e. toLowerCase (fst e)) kvs) \<Longrightarrow> (k, v) \<in> set kvs \<Longrightarrow>
   headers_get (fold (\<lambda>(key, value) h. headers_set h key value) kvs h) k = Some v"
proof (induction kvs arbitrary: h)
  case Nil
  then show ?case by simp
next
  case (Cons e kvs)
  show ?case
  proof (cases "(k, v) = e")
    case True
    with Cons.prems(1) have "toLowerCase k \<notin> toLowerCase ` fst ` set kvs"
      by (auto simp: image_iff)
    with True show ?thesis
      by (auto simp: headers_get_fold_set_other headers_get_set)
  next
    case False
    with Cons show ?thesis by (cases e) auto
  qed
qed

section \<open>CORS preflight\<close>

lemma lc_cors_names:
  "toLowerCase ''Access-Control-Allow-Origin'' = ''access-control-allow-origin''"
  "toLowerCase ''Access-Control-Allow-Methods'' = ''access-control-allow-methods''"
  "toLowerCase ''Access-Control-Allow-Headers'' = ''access-control-allow-headers''"
  "toLowerCase ''Access-Control-Max-Age'' = ''access-control-max-age''"
  "toLowerCase ''access-control-allow-origin'' = ''access-control-allow-origin''"
  "toLowerCase ''access-control-allow-methods'' = ''access-control-allow-methods''"
  "toLowerCase ''access-control-allow-headers'' = ''access-control-allow-headers''"
  "toLowerCase ''access-control-max-age'' = ''access-control-max-age''"
  by code_simp+

lemma handleCORS_headers:
  "headers_get (resp_headers (handleCORS cfg)) ''Access-Control-Allow-Origin''
     = Some (allowOrigin (CORS cfg))"
  "headers_get (resp_headers (handleCORS cfg)) ''Access-Control-Allow-Methods''
     = Some (allowMethods (CORS cfg))"
  "headers_get (resp_headers (handleCORS cfg)) ''Access-Control-Allow-Headers''
     = Some (allowHeaders (CORS cfg))"
  "headers_get (resp_headers (handleCORS cfg)) ''Access-Control-Max-Age''
     = Some (toString_nat (maxAge (CORS cfg)))"
  by (simp_all add: handleCORS_def new_Headers_def headers_append_def headers_get_def
        same_name_def toLowerCase_idem lc_cors_names)

text \<open>
  C9. A request with method \<open>OPTIONS\<close> is answered at once by \<open>handleCORS\<close>, whatever
  its URL and headers are and whatever the runtime would do: the outcome has no outbound
  call and no relay session, the status is 204 and the four CORS headers carry the
  configured values.
\<close>

theorem options_preflight:
  assumes "request_method request = ''OPTIONS''"
  shows "worker_fetch cfg new_URL new_WebSocket fetch request =
           \<lparr> calls = [], relay = None, completion = Returns 0 (handleCORS cfg) \<rparr>
       \<and> status (handleCORS cfg) = 204
       \<and> headers_get (resp_headers (handleCORS cfg)) ''Access-Control-Allow-Origin''
           = Some (allowOrigin (CORS cfg))
       \<and> headers_get (resp_headers (handleCORS cfg)) ''Access-Control-Allow-Methods''
           = Some (allowMethods (CORS cfg))
       \<and> headers_get (resp_headers (handleCORS cfg)) ''Access-Control-Allow-Headers''
           = Some (allowHeaders (CORS cfg))
       \<and> headers_get (resp_headers (handleCORS cfg)) ''Access-Control-Max-Age''
           = Some (toString_nat (maxAge (CORS cfg)))"
proof -
  have "status (handleCORS cfg) = 204"
    by (simp add: handleCORS_def)
  with assms show ?thesis
    by (simp add: worker_fetch_def handleCORS_headers)
qed

theorem options_preflight_witness:
  "request_method options_request = ''OPTIONS'' \<and>
   worker_fetch CONFIG parse_URL dial echo_fetch options_request =
     \<lparr> calls = [], relay = None, completion = Returns 0 (handleCORS CONFIG) \<rparr> \<and>
   status (handleCORS CONFIG) = 204 \<and>
   headers_get (resp_headers (handleCORS CONFIG)) ''Access-Control-Allow-Origin'' = Some ''*'' \<and>
   headers_get (resp_headers (handleCORS CONFIG)) ''Access-Control-Max-Age'' = Some ''86400''"
proof -
  have m: "request_method options_request = ''OPTIONS''"
    by (simp add: options_request_def)
  have d: "toString_nat (maxAge (CORS CONFIG)) = ''86400''"
    by (simp add: CONFIG_def toString_nat.simps)
  have o: "allowOrigin (CORS CONFIG) = ''*''"
    by (simp add: CONFIG_def)
  from options_preflight [OF m, of CONFIG parse_URL dial echo_fetch] m d o
  show ?thesis by simp
qed

section \<open>Target resolution of the HTTP relay\<close>






section \<open>Targets that are not URLs\<close>

lemma handleError_response:
  "status (handleError cfg message) = 500 \<and>
   (\<exists>m. resp_body (handleError cfg message) = ErrorDocument True m)"
  by (simp add: handleError_def)

text \<open>
  C4, as stated, fails on the HTTP path: \<open>GET /?target=not-a-url\<close> is answered with
  status 500, not 400.
\<close>

theorem malformed_target_http_status_500:
  "handleHTTP_target CONFIG malformed_target_url = Some ''not-a-url'' \<and>
   parse_URL ''not-a-url'' = Inl ''Invalid URL: not-a-url'' \<and>
   completion (worker_fetch CONFIG parse_URL dial echo_fetch (get_request malformed_target_url))
     = Returns 0 (handleError CONFIG ''Invalid URL: not-a-url'') \<and>
   status (handleError CONFIG ''Invalid URL: not-a-url'') = 500 \<and>
   status (handleError CONFIG ''Invalid URL: not-a-url'') \<noteq> 400"
proof -
  have t: "handleHTTP_target CONFIG malformed_target_url = Some ''not-a-url''"
    by (simp add: malformed_target_url_def worker_url_def searchParams_get_def
          handleHTTP_target_def)
  have u: "parse_URL ''not-a-url'' = Inl ''Invalid URL: not-a-url''"
    by (simp add: parse_URL_def Let_def startsWith_def)
  have g: "request_method (get_request malformed_target_url) \<noteq> ''OPTIONS''"
          "headers_get (headers (get_request malformed_target_url)) ''Upgrade'' = None"
          "url (get_request malformed_target_url) = malformed_target_url"
    by (simp add: get_request_def, code_simp, simp add: get_request_def)
  show ?thesis
    by (simp add: worker_fetch_def g handleHTTP_def t u handleError_response)
qed

text \<open>
  C4, amended. When the target string is not a valid absolute URL, the WebSocket upgrade
  path answers with status 400 and the text \<open>WebSocket error:\<close> followed by the parser's
  message, and creates no session; the HTTP path answers through \<open>handleError\<close> with
  status 500 and the JSON error document whose \<open>error\<close> flag is true, and makes no
  outbound call.
\<close>

theorem malformed_target:
  "(searchParams_get u ''target'' = Some t \<and> t \<noteq> [] \<and> new_URL t = Inl message
      \<longrightarrow> handleWebSocket new_URL new_WebSocket request u =
            \<lparr> calls = [], relay = None,
              completion = Returns 0
                (text_response (''WebSocket error: '' @ message) 400) \<rparr>
        \<and> status (text_response (''WebSocket error: '' @ message) 400) = 400)
   \<and> (handleHTTP_target cfg u = Some t \<and> new_URL t = Inl message
      \<longrightarrow> handleHTTP cfg new_URL fetch request u =
            \<lparr> calls = [], relay = None, completion = Returns 0 (handleError cfg message) \<rparr>
        \<and> status (handleError cfg message) = 500
        \<and> resp_body (handleError cfg message) =
            ErrorDocument True (if message \<noteq> [] then message else ''Internal server error''))"
  by (simp add: handleWebSocket_def handleHTTP_def handleError_def text_response_def)

theorem malformed_target_witness:
  "searchParams_get malformed_target_url ''target'' = Some ''not-a-url'' \<and>
   parse_URL ''not-a-url'' = Inl ''Invalid URL: not-a-url'' \<and>
   handleWebSocket parse_URL dial (upgrade_request malformed_target_url) malformed_target_url =
     \<lparr> calls = [], relay = None,
       completion = Returns 0
         (text_response ''WebSocket error: Invalid URL: not-a-url'' 400) \<rparr> \<and>
   handleHTTP_target CONFIG malformed_target_url = Some ''not-a-url'' \<and>
   handleHTTP CONFIG parse_URL echo_fetch (get_request malformed_target_url) malformed_target_url =
     \<lparr> calls = [], relay = None,
       completion = Returns 0 (handleError CONFIG ''Invalid URL: not-a-url'') \<rparr> \<and>
   status (handleError CONFIG ''Invalid URL: not-a-url'') = 500"
proof -
  have q: "searchParams_get malformed_target_url ''target'' = Some ''not-a-url''"
    by (simp add: malformed_target_url_def worker_url_def searchParams_get_def)
  have t: "handleHTTP_target CONFIG malformed_target_url = Some ''not-a-url''"
    by (simp add: handleHTTP_target_def q)
  have u: "parse_URL ''not-a-url'' = Inl ''Invalid URL: not-a-url''"
    by (simp add: parse_URL_def Let_def startsWith_def)
  have ws: "handleWebSocket parse_URL dial (upgrade_request malformed_target_url)
              malformed_target_url =
            \<lparr> calls = [], relay = None,
              completion = Returns 0
                (text_response ''WebSocket error: Invalid URL: not-a-url'' 400) \<rparr>"
    using malformed_target [where u = malformed_target_url and t = "''not-a-url''"
            and new_URL = parse_URL and message = "''Invalid URL: not-a-url''"
            and new_WebSocket = dial and request = "upgrade_request malformed_target_url"] q u
    by simp
  have http: "handleHTTP CONFIG parse_URL echo_fetch (get_request malformed_target_url)
                malformed_target_url =
              \<lparr> calls = [], relay = None,
                completion = Returns 0 (handleError CONFIG ''Invalid URL: not-a-url'') \<rparr>
              \<and> status (handleError CONFIG ''Invalid URL: not-a-url'') = 500"
    using malformed_target [where u = malformed_target_url and t = "''not-a-url''"
            and new_URL = parse_URL and message = "''Invalid URL: not-a-url''"
            and cfg = CONFIG and fetch = echo_fetch
            and request = "get_request malformed_target_url"] t u
    by simp
  from q t u ws http show ?thesis by simp
qed

section \<open>Target of a WebSocket upgrade\<close>

lemma lc_upgrade: "toLowerCase ''Upgrade'' = ''upgrade''" "toLowerCase ''upgrade'' = ''upgrade''"
  "toLowerCase ''connection'' = ''connection''"
  by code_simp+

lemma upgrade_request_is_upgrade:
  "request_method (upgrade_request u) \<noteq> ''OPTIONS''"
  "headers_get (headers (upgrade_request u)) ''Upgrade'' = Some ''websocket''"
  "url (upgrade_request u) = u"
  by (simp_all add: upgrade_request_def headers_get_def same_name_def lc_upgrade)

text \<open>
  C10. An upgrade request is answered from its \<open>target\<close> query parameter alone: two
  upgrade requests with the same parameter get the same outcome whatever their paths, the
  rest of their queries and the configuration (with or without a default target) are, and
  without a \<open>target\<close> parameter the answer is status 400 at once, with no session and no
  outbound call, also on a request for which the HTTP path would find a target.
\<close>

theorem upgrade_reads_only_target_parameter:
  "(request_method r1 \<noteq> ''OPTIONS'' \<and> headers_get (headers r1) ''Upgrade'' = Some ''websocket'' \<and>
    request_method r2 \<noteq> ''OPTIONS'' \<and> headers_get (headers r2) ''Upgrade'' = Some ''websocket'' \<and>
    searchParams_get (url r1) ''target'' = searchParams_get (url r2) ''target''
    \<longrightarrow> worker_fetch cfg1 new_URL new_WebSocket fetch1 r1 =
          worker_fetch cfg2 new_URL new_WebSocket fetch2 r2)
   \<and> (request_method r1 \<noteq> ''OPTIONS'' \<and> headers_get (headers r1) ''Upgrade'' = Some ''websocket'' \<and>
        \<not> truthy (searchParams_get (url r1) ''target'')
    \<longrightarrow> worker_fetch cfg1 new_URL new_WebSocket fetch1 r1 =
          \<lparr> calls = [], relay = None,
            completion = Returns 0
              (text_response ''Missing target parameter for WebSocket'' 400) \<rparr>
      \<and> status (text_response ''Missing target parameter for WebSocket'' 400) = 400)"
proof -
  have same: "searchParams_get u1 ''target'' = searchParams_get u2 ''target'' \<Longrightarrow>
      handleWebSocket new_URL new_WebSocket q1 u1 = handleWebSocket new_URL new_WebSocket q2 u2"
    for u1 u2 q1 q2
    by (simp add: handleWebSocket_def)
  have missing: "\<not> truthy (searchParams_get u ''target'') \<Longrightarrow>
      handleWebSocket new_URL new_WebSocket q u =
        \<lparr> calls = [], relay = None,
          completion = Returns 0
            (text_response ''Missing target parameter for WebSocket'' 400) \<rparr>" for u q
    by (cases "searchParams_get u ''target''") (simp_all add: handleWebSocket_def)
  show ?thesis
    by (auto simp: worker_fetch_def text_response_def dest: same missing)
qed

theorem upgrade_reads_only_target_parameter_witness:
  "request_method (upgrade_request path_only_upgrade_url) \<noteq> ''OPTIONS'' \<and>
   headers_get (headers (upgrade_request path_only_upgrade_url)) ''Upgrade'' = Some ''websocket'' \<and>
   \<not> truthy (searchParams_get (url (upgrade_request path_only_upgrade_url)) ''target'') \<and>
   handleHTTP_target CONFIG_with_default path_only_upgrade_url = Some ''https://example.test/socket'' \<and>
   worker_fetch CONFIG_with_default parse_URL dial echo_fetch (upgrade_request path_only_upgrade_url) =
     \<lparr> calls = [], relay = None,
       completion = Returns 0
         (text_response ''Missing target parameter for WebSocket'' 400) \<rparr> \<and>
   worker_fetch CONFIG parse_URL dial echo_fetch (upgrade_request path_only_upgrade_url) =
     worker_fetch CONFIG_with_default parse_URL dial echo_fetch (upgrade_request plain_url)"
proof -
  have a: "\<not> truthy (searchParams_get (url (upgrade_request path_only_upgrade_url)) ''target'')"
    by (simp add: upgrade_request_is_upgrade path_only_upgrade_url_def worker_url_def
          searchParams_get_def)
  have b: "searchParams_get (url (upgrade_request path_only_upgrade_url)) ''target'' =
           searchParams_get (url (upgrade_request plain_url)) ''target''"
    by (simp add: upgrade_request_is_upgrade path_only_upgrade_url_def plain_url_def
          worker_url_def searchParams_get_def)
  have h: "handleHTTP_target CONFIG_with_default path_only_upgrade_url
             = Some ''https://example.test/socket''"
    by (simp add: handleHTTP_target_def path_only_upgrade_url_def worker_url_def
          searchParams_get_def substring1_def startsWith_def)
  have 1: "worker_fetch CONFIG_with_default parse_URL dial echo_fetch
             (upgrade_request path_only_upgrade_url) =
           \<lparr> calls = [], relay = None,
             completion = Returns 0
               (text_response ''Missing target parameter for WebSocket'' 400) \<rparr>"
    using upgrade_reads_only_target_parameter
            [where ?r1.0 = "upgrade_request path_only_upgrade_url" and ?cfg1.0 = CONFIG_with_default
               and new_URL = parse_URL and new_WebSocket = dial and ?fetch1.0 = echo_fetch]
          a upgrade_request_is_upgrade(1,2) [of path_only_upgrade_url]
    by simp
  have 2: "worker_fetch CONFIG parse_URL dial echo_fetch (upgrade_request path_only_upgrade_url) =
           worker_fetch CONFIG_with_default parse_URL dial echo_fetch (upgrade_request plain_url)"
    using upgrade_reads_only_target_parameter
            [where ?r1.0 = "upgrade_request path_only_upgrade_url" and ?cfg1.0 = CONFIG
               and ?r2.0 = "upgrade_request plain_url" and ?cfg2.0 = CONFIG_with_default
               and new_URL = parse_URL and new_WebSocket = dial
               and ?fetch1.0 = echo_fetch and ?fetch2.0 = echo_fetch]
          b upgrade_request_is_upgrade(1,2) [of path_only_upgrade_url]
          upgrade_request_is_upgrade(1,2) [of plain_url]
    by simp
  from a h 1 2 upgrade_request_is_upgrade(1,2) [of path_only_upgrade_url]
  show ?thesis by simp
qed

section \<open>The URL dialled for a WebSocket relay\<close>

lemma dialUrl_connectWebSocket: "dialUrl (connectWebSocket new_WebSocket server u) = u"
  by (simp add: connectWebSocket_def split: option.splits)

lemma URL_toString_protocol:
  "URL_toString (set_protocol u p) = p @ drop (length (protocol u)) (URL_toString u)"
  by (simp add: URL_toString_def set_protocol_def)

text \<open>
  C7. When the \<open>target\<close> parameter of an upgrade request parses, the request is answered
  with status 101 and a session is created. The URL that is dialled is the parsed target,
  serialised, with \<open>http:\<close> replaced by \<open>ws:\<close> and \<open>https:\<close> by \<open>wss:\<close> and
  everything behind the scheme (host, path, query) as it was; a target that parses to
  \<open>ws:\<close> or \<open>wss:\<close> is dialled unchanged.
\<close>

theorem websocket_scheme_coercion:
  assumes "searchParams_get u ''target'' = Some t" and "t \<noteq> []" and "new_URL t = Inr parsed"
  shows "\<exists>s. handleWebSocket new_URL new_WebSocket request u =
               \<lparr> calls = [], relay = Some s,
                 completion = Returns 0
                   \<lparr> status = 101, statusText = [], resp_headers = [],
                     resp_body = Null, webSocket = True \<rparr> \<rparr>
          \<and> (protocol parsed = ''http:'' \<longrightarrow>
                 dialUrl s = URL_toString (parsed\<lparr>protocol := ''ws:''\<rparr>)
               \<and> dialUrl s = ''ws:'' @ drop (length ''http:'') (URL_toString parsed))
          \<and> (protocol parsed = ''https:'' \<longrightarrow>
                 dialUrl s = URL_toString (parsed\<lparr>protocol := ''wss:''\<rparr>)
               \<and> dialUrl s = ''wss:'' @ drop (length ''https:'') (URL_toString parsed))
          \<and> (protocol parsed = ''ws:'' \<or> protocol parsed = ''wss:'' \<longrightarrow>
                 dialUrl s = URL_toString parsed)"
proof -
  define targetUrl where "targetUrl =
    (if protocol parsed = ''http:'' then set_protocol parsed ''ws:''
     else if protocol parsed = ''https:'' then set_protocol parsed ''wss:'' else parsed)"
  define s where "s = connectWebSocket new_WebSocket accepted_server (URL_toString targetUrl)"
  have out: "handleWebSocket new_URL new_WebSocket request u =
               \<lparr> calls = [], relay = Some s,
                 completion = Returns 0
                   \<lparr> status = 101, statusText = [], resp_headers = [],
                     resp_body = Null, webSocket = True \<rparr> \<rparr>"
    using assms by (simp add: handleWebSocket_def s_def targetUrl_def)
  have d: "dialUrl s = URL_toString targetUrl"
    by (simp add: s_def dialUrl_connectWebSocket)
  have http: "protocol parsed = ''http:'' \<Longrightarrow>
      dialUrl s = URL_toString (parsed\<lparr>protocol := ''ws:''\<rparr>)
      \<and> dialUrl s = ''ws:'' @ drop (length ''http:'') (URL_toString parsed)"
    using URL_toString_protocol [of parsed "''ws:''"]
    by (simp add: d targetUrl_def set_protocol_def)
  have https: "protocol parsed = ''https:'' \<Longrightarrow>
      dialUrl s = URL_toString (parsed\<lparr>protocol := ''wss:''\<rparr>)
      \<and> dialUrl s = ''wss:'' @ drop (length ''https:'') (URL_toString parsed)"
    using URL_toString_protocol [of parsed "''wss:''"]
    by (simp add: d targetUrl_def set_protocol_def)
  have ws: "protocol parsed = ''ws:'' \<or> protocol parsed = ''wss:'' \<Longrightarrow>
      dialUrl s = URL_toString parsed"
    by (auto simp: d targetUrl_def)
  from out http https ws show ?thesis by blast
qed

lemma parse_examples:
  "parse_URL ''http://x.example:8080/y?room=1'' =
     Inr \<lparr> protocol = ''http:'', username = [], password = [], host = ''x.example:8080'',
           pathname = ''/y'', search = ''?room=1'', searchParams = [(''room'', ''1'')], hash = [] \<rparr>"
  "parse_URL ''https://x.example/y'' =
     Inr \<lparr> protocol = ''https:'', username = [], password = [], host = ''x.example'',
           pathname = ''/y'', search = [], searchParams = [], hash = [] \<rparr>"
  "parse_URL ''wss://echo.example/socket'' =
     Inr \<lparr> protocol = ''wss:'', username = [], password = [], host = ''echo.example'',
           pathname = ''/socket'', search = [], searchParams = [], hash = [] \<rparr>"
  by (simp_all add: parse_URL_def Let_def startsWith_def parse_query_def)

theorem websocket_scheme_coercion_witness:
  "(\<exists>s. relay (handleWebSocket parse_URL dial (upgrade_request http_upgrade_url) http_upgrade_url)
          = Some s \<and> dialUrl s = ''ws://x.example:8080/y?room=1'') \<and>
   (\<exists>s. relay (handleWebSocket parse_URL dial (upgrade_request https_upgrade_url) https_upgrade_url)
          = Some s \<and> dialUrl s = ''wss://x.example/y'') \<and>
   (\<exists>s. relay (handleWebSocket parse_URL dial (upgrade_request wss_upgrade_url) wss_upgrade_url)
          = Some s \<and> dialUrl s = ''wss://echo.example/socket'')"
proof -
  have q: "searchParams_get http_upgrade_url ''target'' = Some ''http://x.example:8080/y?room=1''"
          "searchParams_get https_upgrade_url ''target'' = Some ''https://x.example/y''"
          "searchParams_get wss_upgrade_url ''target'' = Some ''wss://echo.example/socket''"
    by (simp_all add: http_upgrade_url_def https_upgrade_url_def wss_upgrade_url_def
          worker_url_def searchParams_get_def)
  have 1: "\<exists>s. relay (handleWebSocket parse_URL dial (upgrade_request http_upgrade_url)
                        http_upgrade_url) = Some s
               \<and> dialUrl s = ''ws://x.example:8080/y?room=1''"
    using websocket_scheme_coercion
            [where new_URL = parse_URL and new_WebSocket = dial
               and request = "upgrade_request http_upgrade_url", OF q(1) _ parse_examples(1)]
    by (auto simp: URL_toString_def)
  have 2: "\<exists>s. relay (handleWebSocket parse_URL dial (upgrade_request https_upgrade_url)
                        https_upgrade_url) = Some s
               \<and> dialUrl s = ''wss://x.example/y''"
    using websocket_scheme_coercion
            [where new_URL = parse_URL and new_WebSocket = dial
               and request = "upgrade_request https_upgrade_url", OF q(2) _ parse_examples(2)]
    by (auto simp: URL_toString_def)
  have 3: "\<exists>s. relay (handleWebSocket parse_URL dial (upgrade_request wss_upgrade_url)
                        wss_upgrade_url) = Some s
               \<and> dialUrl s = ''wss://echo.example/socket''"
    using websocket_scheme_coercion
            [where new_URL = parse_URL and new_WebSocket = dial
               and request = "upgrade_request wss_upgrade_url", OF q(3) _ parse_examples(3)]
    by (auto simp: URL_toString_def)
  from 1 2 3 show ?thesis by blast
qed

section \<open>Propagation of close and error\<close>

lemma socket_put_socket [simp]:
  "socket sd (put_socket sd w s) = Some w"
  "socket (other sd) (put_socket sd w s) = socket (other sd) s"
  "socket sd (put_socket (other sd) w s) = socket sd s"
  by (cases sd; simp)+

lemma other_other [simp]: "other (other sd) = sd"
  by (cases sd) simp_all

lemma readyState_ws_close: "readyState (ws_close w) \<noteq> OPEN"
  by (simp add: ws_close_def)

lemma ws_close_open: "readyState w = OPEN \<Longrightarrow> ws_close w = w\<lparr>readyState := CLOSING\<rparr>"
  by (simp add: ws_close_def)

lemma socket_runtime_other:
  "ev = Close sd \<or> ev = Error sd \<or> ev = Message sd d \<Longrightarrow>
     socket (other sd) (runtime ev s) = socket (other sd) s"
  by (cases sd) (auto split: option.splits)

lemma wired_put_socket: "wired s \<Longrightarrow> wired (put_socket sd w s)"
  unfolding wired_def by (cases sd) simp_all

lemma wired_runtime: "wired s \<Longrightarrow> wired (runtime ev s)"
  by (cases ev) (simp_all add: wired_put_socket split: option.splits)

lemma listener_wired:
  "wired s \<Longrightarrow> listener (Message sd d) s = on_message sd d s"
  "wired s \<Longrightarrow> listener (Close sd) s = on_close sd s"
  "wired s \<Longrightarrow> listener (Error sd) s = on_error sd s"
  by (auto simp: wired_def)

lemma on_close_socket:
  "socket (other sd) s = Some peer \<Longrightarrow>
   socket (other sd) (on_close sd s) =
     Some (if readyState peer = OPEN then ws_close peer else peer)"
  by (simp add: on_close_def)

lemma on_error_socket:
  "socket (other sd) s = Some peer \<Longrightarrow>
   socket (other sd) (on_error sd s) =
     Some (if readyState peer = OPEN then ws_close peer else peer)"
  by (simp add: on_error_def)

lemma wired_uncaught: "wired (s\<lparr>uncaught := e\<rparr>) = wired s"
  by (simp add: wired_def)

lemma wired_listener: "wired s \<Longrightarrow> wired (listener ev s)"
proof (cases ev)
  case (Opened sd)
  assume "wired s" with Opened show ?thesis by simp
next
  case (Message sd d)
  assume w: "wired s"
  with Message show ?thesis
    by (simp add: listener_wired on_message_def wired_put_socket wired_uncaught
          split: option.splits sum.splits)
next
  case (Close sd)
  assume w: "wired s"
  with Close show ?thesis
    by (simp add: listener_wired on_close_def wired_put_socket split: option.splits)
next
  case (Error sd)
  assume w: "wired s"
  with Error show ?thesis
    by (simp add: listener_wired on_error_def wired_put_socket split: option.splits)
qed

lemma wired_dispatch: "wired s \<Longrightarrow> wired (dispatch ev s)"
  by (simp add: dispatch_def wired_runtime wired_listener)

lemma wired_run: "wired s \<Longrightarrow> wired (run evs s)"
  unfolding run_def by (induction evs arbitrary: s) (simp_all add: wired_dispatch)

lemma run_snoc: "run (evs @ [ev]) s = dispatch ev (run evs s)"
  by (simp add: run_def)

lemma socket_defined: "wired s \<Longrightarrow> \<exists>w. socket sd s = Some w"
  unfolding wired_def by (cases sd) auto

lemma dispatch_close_or_error:
  assumes "wired s" and "ev = Close sd \<or> ev = Error sd"
      and "socket (other sd) s = Some peer"
  shows "socket (other sd) (dispatch ev s) =
           Some (if readyState peer = OPEN then ws_close peer else peer)"
proof -
  have r: "socket (other sd) (runtime ev s) = Some peer"
    using assms(2,3) socket_runtime_other [of ev sd _ s] by auto
  have t: "wired (runtime ev s)"
    using assms(1) by (rule wired_runtime)
  from assms(2) t r show ?thesis
    by (auto simp: dispatch_def listener_wired on_close_socket on_error_socket
             simp del: runtime.simps listener.simps)
qed

lemma socket_put_socket_cases:
  "socket sd (put_socket sd' w s) = (if sd' = sd then Some w else socket sd s)"
  by (cases sd; cases sd') simp_all

lemma socket_uncaught: "socket sd (s\<lparr>uncaught := e\<rparr>) = socket sd s"
  by (cases sd) simp_all

lemma shut_runtime:
  assumes "socket sd s = Some w" and "readyState w = CLOSING \<or> readyState w = CLOSED"
  shows "\<exists>w'. socket sd (runtime ev s) = Some w' \<and> (readyState w' = CLOSING \<or> readyState w' = CLOSED)"
  using assms by (cases ev) (auto simp: socket_put_socket_cases split: option.splits)

lemma shut_listener:
  assumes "socket sd s = Some w" and "readyState w = CLOSING \<or> readyState w = CLOSED"
  shows "socket sd (listener ev s) = Some w"
proof -
  have other: "other sd' = sd \<Longrightarrow> socket (other sd') s = Some w" for sd'
    using assms(1) by simp
  have m: "socket sd (on_message sd' d s) = Some w" for sd' d
    using assms other [of sd']
    by (cases "other sd' = sd")
       (auto simp: on_message_def socket_put_socket_cases socket_uncaught
             split: option.splits sum.splits)
  have c: "socket sd (on_close sd' s) = Some w" for sd'
    using assms other [of sd']
    by (cases "other sd' = sd")
       (auto simp: on_close_def socket_put_socket_cases split: option.splits)
  have e: "socket sd (on_error sd' s) = Some w" for sd'
    using assms other [of sd']
    by (cases "other sd' = sd")
       (auto simp: on_error_def socket_put_socket_cases split: option.splits)
  show ?thesis
    using assms(1) by (cases ev) (simp_all add: m c e)
qed

lemma shut_dispatch:
  assumes "socket sd s = Some w" and "readyState w = CLOSING \<or> readyState w = CLOSED"
  shows "\<exists>w'. socket sd (dispatch ev s) = Some w' \<and> (readyState w' = CLOSING \<or> readyState w' = CLOSED)"
proof -
  from shut_runtime [OF assms] obtain w'
    where "socket sd (runtime ev s) = Some w'" "readyState w' = CLOSING \<or> readyState w' = CLOSED"
    by blast
  then show ?thesis
    using shut_listener [of sd "runtime ev s" w' ev] by (simp add: dispatch_def)
qed

lemma shut_run:
  assumes "socket sd s = Some w" and "readyState w = CLOSING \<or> readyState w = CLOSED"
  shows "\<exists>w'. socket sd (run evs s) = Some w' \<and> (readyState w' = CLOSING \<or> readyState w' = CLOSED)"
  using assms
proof (induction evs arbitrary: s w)
  case Nil
  then show ?case by (simp add: run_def)
next
  case (Cons ev evs)
  from shut_dispatch [OF Cons.prems] obtain w'
    where "socket sd (dispatch ev s) = Some w'" "readyState w' = CLOSING \<or> readyState w' = CLOSED"
    by blast
  from Cons.IH [OF this] show ?case by (simp add: run_def)
qed

lemma run_append_Cons: "run (evs @ ev # later) s = run later (dispatch ev (run evs s))"
  by (simp add: run_def)

lemma shut_after_close:
  assumes "wired s" and "ev = Close sd \<or> ev = Error sd"
      and "socket (other sd) (run evs s) = Some peer" and "readyState peer \<noteq> CONNECTING"
  shows "\<exists>w. socket (other sd) (run (evs @ ev # later) s) = Some w \<and> readyState w \<noteq> OPEN"
proof -
  let ?s = "run evs s"
  let ?peer' = "if readyState peer = OPEN then ws_close peer else peer"
  have "wired ?s" using assms(1) by (rule wired_run)
  from dispatch_close_or_error [OF this assms(2,3)]
  have 1: "socket (other sd) (dispatch ev ?s) = Some ?peer'" .
  have 2: "readyState ?peer' = CLOSING \<or> readyState ?peer' = CLOSED"
    using assms(4) by (cases "readyState peer") (simp_all add: ws_close_def)
  from shut_run [OF 1 2, of later] show ?thesis
    by (auto simp: run_append_Cons)
qed

lemma relaying_session_facts:
  "wired relaying_session"
  "socket Server relaying_session = Some \<lparr>readyState = OPEN, sent = []\<rparr>"
  "socket Target relaying_session = Some \<lparr>readyState = OPEN, sent = []\<rparr>"
  by (simp_all add: relaying_session_def wired_def)

lemma connecting_session_facts:
  "wired connecting_session"
  "socket Server connecting_session = Some \<lparr>readyState = OPEN, sent = []\<rparr>"
  "socket Target connecting_session = Some \<lparr>readyState = CONNECTING, sent = []\<rparr>"
  by (simp_all add: connecting_session_def connectWebSocket_def dial_def startsWith_def
        accepted_server_def wired_def)

text \<open>
  C1 requires that no reachable state of a session leaves one side closed while the other
  side stays open. The \<open>close\<close> listener of the caller-facing socket calls \<open>close()\<close> on
  the target socket only if that one is open. After an upgrade to
  \<open>wss://echo.example/socket\<close>, when the caller-facing socket closes while the target
  socket is still connecting, the listener leaves the target socket alone; the target
  socket then opens, and the session has its caller-facing side closed and its target side
  open, with no listener left to close it.
\<close>

theorem early_close_leaves_target_open:
  "relay (handleWebSocket parse_URL dial (upgrade_request wss_upgrade_url) wss_upgrade_url)
     = Some connecting_session \<and>
   wired connecting_session \<and>
   socket Server (run [Close Server] connecting_session)
     = Some \<lparr>readyState = CLOSED, sent = []\<rparr> \<and>
   socket Target (run [Close Server] connecting_session)
     = Some \<lparr>readyState = CONNECTING, sent = []\<rparr> \<and>
   socket Server (run [Close Server, Opened Target] connecting_session)
     = Some \<lparr>readyState = CLOSED, sent = []\<rparr> \<and>
   socket Target (run [Close Server, Opened Target] connecting_session)
     = Some \<lparr>readyState = OPEN, sent = []\<rparr>"
proof -
  have q: "searchParams_get wss_upgrade_url ''target'' = Some ''wss://echo.example/socket''"
    by (simp add: wss_upgrade_url_def worker_url_def searchParams_get_def)
  have r: "relay (handleWebSocket parse_URL dial (upgrade_request wss_upgrade_url) wss_upgrade_url)
             = Some connecting_session"
    by (simp add: handleWebSocket_def q parse_examples(3) URL_toString_def connecting_session_def)
  have s: "connecting_session =
             \<lparr> dialUrl = ''wss://echo.example/socket'',
               serverWs = \<lparr>readyState = OPEN, sent = []\<rparr>,
               targetWs = Some \<lparr>readyState = CONNECTING, sent = []\<rparr>,
               uncaught = [] \<rparr>"
    by (simp add: connecting_session_def connectWebSocket_def dial_def startsWith_def
          accepted_server_def)
  have 1: "socket Server (run [Close Server] connecting_session)
             = Some \<lparr>readyState = CLOSED, sent = []\<rparr>"
          "socket Target (run [Close Server] connecting_session)
             = Some \<lparr>readyState = CONNECTING, sent = []\<rparr>"
    by (simp_all add: s run_def dispatch_def on_close_def)
  have 2: "socket Server (run [Close Server, Opened Target] connecting_session)
             = Some \<lparr>readyState = CLOSED, sent = []\<rparr>"
          "socket Target (run [Close Server, Opened Target] connecting_session)
             = Some \<lparr>readyState = OPEN, sent = []\<rparr>"
    by (simp_all add: s run_def dispatch_def on_close_def)
  from r connecting_session_facts(1) 1 2 show ?thesis by simp
qed

text \<open>
  What the listeners do achieve. In a session with listeners, in whatever state earlier
  events have left it, when a \<open>close\<close> or an \<open>error\<close> event fires on one socket the
  listener calls \<open>close()\<close> on the other socket if that one is open (it is then closing)
  and leaves it alone otherwise, so the other socket is not open once the event is handled;
  and a socket that was open, closing or closed when the event fired is not open after any
  later event. When the \<open>WebSocket\<close> constructor throws, no listener is installed and
  \<open>close()\<close> is called on the caller-facing socket, which is not open from then on.
\<close>

theorem symmetric_close:
  "(wired s \<and> (ev = Close sd \<or> ev = Error sd) \<longrightarrow>
      (\<exists>peer peer'. socket (other sd) (run evs s) = Some peer
          \<and> socket (other sd) (run (evs @ [ev]) s) = Some peer'
          \<and> (readyState peer = OPEN \<longrightarrow> peer' = ws_close peer \<and> readyState peer' = CLOSING)
          \<and> (readyState peer \<noteq> OPEN \<longrightarrow> peer' = peer)
          \<and> readyState peer' \<noteq> OPEN
          \<and> (readyState peer \<noteq> CONNECTING \<longrightarrow>
                (\<exists>w. socket (other sd) (run (evs @ ev # later) s) = Some w
                     \<and> readyState w \<noteq> OPEN))))
   \<and> (new_WebSocket u = Some err \<longrightarrow>
        targetWs (connectWebSocket new_WebSocket server u) = None
      \<and> serverWs (connectWebSocket new_WebSocket server u) = ws_close server
      \<and> (readyState server = OPEN \<longrightarrow>
            readyState (serverWs (connectWebSocket new_WebSocket server u)) = CLOSING)
      \<and> (\<exists>w. socket Server (run evs (connectWebSocket new_WebSocket server u)) = Some w
             \<and> readyState w \<noteq> OPEN))"
proof -
  have one: "\<exists>peer peer'. socket (other sd) (run evs s) = Some peer
          \<and> socket (other sd) (run (evs @ [ev]) s) = Some peer'
          \<and> (readyState peer = OPEN \<longrightarrow> peer' = ws_close peer \<and> readyState peer' = CLOSING)
          \<and> (readyState peer \<noteq> OPEN \<longrightarrow> peer' = peer)
          \<and> readyState peer' \<noteq> OPEN
          \<and> (readyState peer \<noteq> CONNECTING \<longrightarrow>
                (\<exists>w. socket (other sd) (run (evs @ ev # later) s) = Some w
                     \<and> readyState w \<noteq> OPEN))"
    if w: "wired s" and e: "ev = Close sd \<or> ev = Error sd"
  proof -
    have w': "wired (run evs s)"
      using w by (rule wired_run)
    then obtain peer where p: "socket (other sd) (run evs s) = Some peer"
      using socket_defined by blast
    from dispatch_close_or_error [OF w' e p]
    have d: "socket (other sd) (run (evs @ [ev]) s) =
               Some (if readyState peer = OPEN then ws_close peer else peer)"
      by (simp add: run_snoc)
    have l: "readyState peer \<noteq> CONNECTING \<longrightarrow>
               (\<exists>w. socket (other sd) (run (evs @ ev # later) s) = Some w \<and> readyState w \<noteq> OPEN)"
      using shut_after_close [OF w e p] by blast
    from p d l show ?thesis
      by (auto simp: readyState_ws_close ws_close_open)
  qed
  have two: "targetWs (connectWebSocket new_WebSocket server u) = None
      \<and> serverWs (connectWebSocket new_WebSocket server u) = ws_close server
      \<and> (readyState server = OPEN \<longrightarrow>
            readyState (serverWs (connectWebSocket new_WebSocket server u)) = CLOSING)
      \<and> (\<exists>w. socket Server (run evs (connectWebSocket new_WebSocket server u)) = Some w
             \<and> readyState w \<noteq> OPEN)"
    if t: "new_WebSocket u = Some err"
  proof -
    let ?s = "connectWebSocket new_WebSocket server u"
    have a: "targetWs ?s = None" "serverWs ?s = ws_close server"
      using t by (simp_all add: connectWebSocket_def)
    have "readyState (ws_close server) = CLOSING \<or> readyState (ws_close server) = CLOSED"
      by (cases "readyState server") (simp_all add: ws_close_def)
    with a(2) have "\<exists>w'. socket Server (run evs ?s) = Some w'
        \<and> (readyState w' = CLOSING \<or> readyState w' = CLOSED)"
      using shut_run [of Server ?s "ws_close server" evs] by simp
    then have b: "\<exists>w. socket Server (run evs ?s) = Some w \<and> readyState w \<noteq> OPEN"
      by auto
    from a b show ?thesis
      by (simp add: ws_close_open)
  qed
  from one two show ?thesis by blast
qed

theorem symmetric_close_witness:
  "wired relaying_session \<and>
   socket Target relaying_session = Some \<lparr>readyState = OPEN, sent = []\<rparr> \<and>
   socket Target (run ([] @ [Close Server]) relaying_session)
     = Some \<lparr>readyState = CLOSING, sent = []\<rparr> \<and>
   (\<exists>w. socket Target (run ([] @ Close Server # [Opened Target, Message Server (TextData ''late'')])
                          relaying_session) = Some w \<and> readyState w \<noteq> OPEN) \<and>
   (\<exists>w. socket Server (run ([Message Server (TextData ''ping'')] @ [Error Target]) relaying_session)
          = Some w \<and> readyState w \<noteq> OPEN) \<and>
   dial ''http://x.example/'' = Some ''SyntaxError'' \<and>
   readyState accepted_server = OPEN \<and>
   readyState (serverWs (connectWebSocket dial accepted_server ''http://x.example/'')) = CLOSING"
proof -
  have d: "dial ''http://x.example/'' = Some ''SyntaxError''"
    by (simp add: dial_def startsWith_def)
  have a: "readyState accepted_server = OPEN"
    by (simp add: accepted_server_def)
  have r0: "run [] relaying_session = relaying_session"
    by (simp add: run_def)
  have c: "wired relaying_session \<and> (Close Server = Close Server \<or> Close Server = Error Server)"
    using relaying_session_facts(1) by simp
  note close = symmetric_close [where s = relaying_session and ev = "Close Server"
      and sd = Server and evs = "[]"
      and later = "[Opened Target, Message Server (TextData ''late'')]",
      THEN conjunct1, THEN mp, OF c]
  then obtain peer peer' where p:
    "socket (other Server) (run [] relaying_session) = Some peer"
    "socket (other Server) (run ([] @ [Close Server]) relaying_session) = Some peer'"
    "readyState peer = OPEN \<longrightarrow> peer' = ws_close peer \<and> readyState peer' = CLOSING"
    "readyState peer \<noteq> CONNECTING \<longrightarrow>
       (\<exists>w. socket (other Server)
              (run ([] @ Close Server # [Opened Target, Message Server (TextData ''late'')])
                 relaying_session) = Some w \<and> readyState w \<noteq> OPEN)"
    by (elim exE conjE)
  from p(1) relaying_session_facts(3)
  have peer: "peer = \<lparr>readyState = OPEN, sent = []\<rparr>"
    by (simp only: r0 other.simps option.inject)
  have wc: "ws_close \<lparr>readyState = OPEN, sent = []\<rparr> = \<lparr>readyState = CLOSING, sent = []\<rparr>"
    by (simp add: ws_close_def)
  from p(3) have "peer' = \<lparr>readyState = CLOSING, sent = []\<rparr>"
    by (simp add: peer wc)
  with p(2) have 1: "socket Target (run ([] @ [Close Server]) relaying_session)
             = Some \<lparr>readyState = CLOSING, sent = []\<rparr>"
    by (simp only: other.simps)
  from p(4) have 2: "\<exists>w. socket Target
                 (run ([] @ Close Server # [Opened Target, Message Server (TextData ''late'')])
                    relaying_session) = Some w \<and> readyState w \<noteq> OPEN"
    by (simp add: peer)
  have e: "wired relaying_session \<and> (Error Target = Close Target \<or> Error Target = Error Target)"
    using relaying_session_facts(1) by simp
  note err = symmetric_close [where s = relaying_session and ev = "Error Target"
      and sd = Target and evs = "[Message Server (TextData ''ping'')]" and later = "[]",
      THEN conjunct1, THEN mp, OF e]
  then obtain q' where q:
    "socket (other Target) (run ([Message Server (TextData ''ping'')] @ [Error Target])
        relaying_session) = Some q'"
    "readyState q' \<noteq> OPEN"
    by blast
  then have 3: "\<exists>w. socket Server
                 (run ([Message Server (TextData ''ping'')] @ [Error Target]) relaying_session)
               = Some w \<and> readyState w \<noteq> OPEN"
    by (simp only: other.simps) blast
  note thrown = symmetric_close [where new_WebSocket = dial and u = "''http://x.example/''"
      and err = "''SyntaxError''" and server = accepted_server and evs = "[]",
      THEN conjunct2, THEN mp, OF d]
  then have 4: "readyState (serverWs (connectWebSocket dial accepted_server ''http://x.example/''))
             = CLOSING"
    using a by blast
  show ?thesis
    using relaying_session_facts(1,3) 1 2 3 4 d a by (intro conjI)
qed

section \<open>Forwarding of messages\<close>

lemma on_message_open:
  "socket (other sd) s = Some dest \<Longrightarrow> readyState dest = OPEN \<Longrightarrow>
   on_message sd d s = put_socket (other sd) (dest\<lparr>sent := sent dest @ [d]\<rparr>) s"
  by (simp add: on_message_def ws_send_def)

lemma on_message_not_open:
  "socket (other sd) s = Some dest \<Longrightarrow> readyState dest \<noteq> OPEN \<Longrightarrow> on_message sd d s = s"
  by (simp add: on_message_def)

lemma uncaught_put_socket: "uncaught (put_socket sd w s) = uncaught s"
  by (cases sd) simp_all

lemma dispatch_message: "wired s \<Longrightarrow> dispatch (Message sd d) s = on_message sd d s"
  by (auto simp: dispatch_def wired_def)

text \<open>
  C2. In a session with listeners, a \<open>message\<close> event on one socket hands \<open>event.data\<close>,
  the same payload with its text or binary form, to \<open>send\<close> on the other socket exactly
  when that socket is open, and changes nothing else; when it is not open the session is
  left as it was: nothing is queued and no exception escapes the listener.
\<close>

theorem message_forwarding:
  assumes "wired s" and "socket (other sd) s = Some dest"
  shows "(readyState dest = OPEN \<longrightarrow>
            dispatch (Message sd d) s = put_socket (other sd) (dest\<lparr>sent := sent dest @ [d]\<rparr>) s)
       \<and> (readyState dest \<noteq> OPEN \<longrightarrow> dispatch (Message sd d) s = s)
       \<and> uncaught (dispatch (Message sd d) s) = uncaught s
       \<and> socket sd (dispatch (Message sd d) s) = socket sd s
       \<and> ((\<exists>dest'. socket (other sd) (dispatch (Message sd d) s) = Some dest'
                  \<and> sent dest' = sent dest @ [d])
            \<longleftrightarrow> readyState dest = OPEN)"
proof (cases "readyState dest = OPEN")
  case True
  have "dispatch (Message sd d) s = put_socket (other sd) (dest\<lparr>sent := sent dest @ [d]\<rparr>) s"
    using assms True by (simp add: dispatch_message on_message_open)
  with True show ?thesis
    by (simp add: uncaught_put_socket)
next
  case False
  have "dispatch (Message sd d) s = s"
    using assms False by (simp add: dispatch_message on_message_not_open)
  with False assms(2) show ?thesis
    by simp
qed

theorem message_forwarding_witness:
  "wired relaying_session \<and>
   dispatch (Message Server (BinaryData [1, 2, 255])) relaying_session =
     relaying_session\<lparr>targetWs := Some \<lparr>readyState = OPEN, sent = [BinaryData [1, 2, 255]]\<rparr>\<rparr> \<and>
   dispatch (Message Target (TextData ''pong'')) relaying_session =
     relaying_session\<lparr>serverWs := \<lparr>readyState = OPEN, sent = [TextData ''pong'']\<rparr>\<rparr> \<and>
   wired connecting_session \<and>
   socket Target connecting_session = Some \<lparr>readyState = CONNECTING, sent = []\<rparr> \<and>
   dispatch (Message Server (TextData ''early'')) connecting_session = connecting_session"
proof -
  have 1: "dispatch (Message Server (BinaryData [1, 2, 255])) relaying_session =
     relaying_session\<lparr>targetWs := Some \<lparr>readyState = OPEN, sent = [BinaryData [1, 2, 255]]\<rparr>\<rparr>"
    using message_forwarding [where s = relaying_session and sd = Server
            and d = "BinaryData [1, 2, 255]", OF relaying_session_facts(1)]
          relaying_session_facts(3)
    by simp
  have 2: "dispatch (Message Target (TextData ''pong'')) relaying_session =
     relaying_session\<lparr>serverWs := \<lparr>readyState = OPEN, sent = [TextData ''pong'']\<rparr>\<rparr>"
    using message_forwarding [where s = relaying_session and sd = Target
            and d = "TextData ''pong''", OF relaying_session_facts(1)]
          relaying_session_facts(2)
    by simp
  have 3: "dispatch (Message Server (TextData ''early'')) connecting_session = connecting_session"
    using message_forwarding [where s = connecting_session and sd = Server
            and d = "TextData ''early''", OF connecting_session_facts(1)]
          connecting_session_facts(3)
    by simp
  from 1 2 3 relaying_session_facts(1) connecting_session_facts(1,3) show ?thesis by simp
qed

section \<open>Headers of the outbound request\<close>

lemma lc_host_origin:
  "toLowerCase ''Host'' = ''host''" "toLowerCase ''Origin'' = ''origin''"
  "toLowerCase ''host'' = ''host''" "toLowerCase ''origin'' = ''origin''"
  by code_simp+

lemma in_set_headers_has: "e \<in> set h \<Longrightarrow> headers_has h (fst e)"
  by (auto simp: headers_has_def same_name_def)

lemma set_headers_delete: "set (headers_delete h n) \<subseteq> set h"
  by (auto simp: headers_delete_def)

lemma set_fold_delete:
  "e \<in> set (fold (\<lambda>header h. headers_delete h header) ns h) \<Longrightarrow>
     e \<in> set h \<and> toLowerCase (fst e) \<notin> toLowerCase ` set ns"
proof (induction ns arbitrary: h)
  case Nil
  then show ?case by simp
next
  case (Cons n ns)
  from Cons.prems have "e \<in> set (fold (\<lambda>header h. headers_delete h header) ns (headers_delete h n))"
    by simp
  from Cons.IH [OF this] show ?case
    by (auto simp: headers_delete_def same_name_def)
qed

lemma set_headers_set:
  "e \<in> set (headers_set h n v) \<Longrightarrow> e \<in> set h \<or> e = (toLowerCase n, v)"
  by (auto simp: headers_set_def headers_delete_def)

lemma request_headers_host:
  "headers_get (request_headers cfg hs target) ''Host'' = Some (host target)"
  by (simp add: request_headers_def headers_get_delete headers_get_set lc_host_origin)

lemma request_headers_origin:
  "\<not> headers_has (request_headers cfg hs target) ''Origin''"
  by (simp add: request_headers_def headers_has_delete)

lemma request_headers_removed:
  assumes "toLowerCase ''Host'' \<notin> toLowerCase ` set (REMOVE_HEADERS cfg)"
      and "e \<in> set (request_headers cfg hs target)"
  shows "toLowerCase (fst e) \<notin> toLowerCase ` set (REMOVE_HEADERS cfg)"
proof -
  let ?stripped = "fold (\<lambda>header h. headers_delete h header) (REMOVE_HEADERS cfg) hs"
  from assms(2) have "e \<in> set (headers_set ?stripped ''Host'' (host target))"
    using set_headers_delete by (auto simp: request_headers_def)
  then have "e \<in> set ?stripped \<or> e = (toLowerCase ''Host'', host target)"
    by (rule set_headers_set)
  then show ?thesis
  proof
    assume "e \<in> set ?stripped"
    then show ?thesis using set_fold_delete by blast
  next
    assume "e = (toLowerCase ''Host'', host target)"
    with assms(1) show ?thesis by (simp add: toLowerCase_idem)
  qed
qed

lemma calls_handleHTTP:
  "r \<in> set (calls (handleHTTP cfg new_URL fetch request u)) \<Longrightarrow>
     \<exists>t target. handleHTTP_target cfg u = Some t \<and> new_URL t = Inr target
        \<and> r = modifiedRequest cfg request target"
  by (auto simp: handleHTTP_def split: option.splits sum.splits)

text \<open>
  C5. Every outbound request that \<open>handleHTTP\<close> hands to \<open>fetch\<close> is addressed to the
  resolved target and, whatever headers the inbound request had, its headers have no entry
  whose name is on the removal list (names compared without regard to case), no \<open>Origin\<close>
  entry, and \<open>Host\<close> equal to the host of the target. The removal list must not name
  \<open>Host\<close> itself, which is set after the removal; the list of \<open>CONFIG\<close> does not.
\<close>

theorem outbound_request_headers:
  assumes "toLowerCase ''Host'' \<notin> toLowerCase ` set (REMOVE_HEADERS cfg)"
      and "r \<in> set (calls (handleHTTP cfg new_URL fetch request u))"
  shows "(\<forall>e \<in> set (headers r). toLowerCase (fst e) \<notin> toLowerCase ` set (REMOVE_HEADERS cfg))
       \<and> (\<forall>n \<in> set (REMOVE_HEADERS cfg). \<not> headers_has (headers r) n)
       \<and> \<not> headers_has (headers r) ''Origin''
       \<and> headers_get (headers r) ''Host'' = Some (host (url r))
       \<and> (\<exists>t. handleHTTP_target cfg u = Some t \<and> new_URL t = Inr (url r))"
proof -
  from calls_handleHTTP [OF assms(2)] obtain t target
    where t: "handleHTTP_target cfg u = Some t" "new_URL t = Inr target"
      and r: "r = modifiedRequest cfg request target"
    by blast
  have h: "headers r = request_headers cfg (headers request) target" and u: "url r = target"
    by (simp_all add: r modifiedRequest_def)
  have 1: "\<forall>e \<in> set (headers r). toLowerCase (fst e) \<notin> toLowerCase ` set (REMOVE_HEADERS cfg)"
    using request_headers_removed [OF assms(1)] by (simp add: h)
  have 2: "\<forall>n \<in> set (REMOVE_HEADERS cfg). \<not> headers_has (headers r) n"
  proof
    fix n assume n: "n \<in> set (REMOVE_HEADERS cfg)"
    show "\<not> headers_has (headers r) n"
    proof
      assume "headers_has (headers r) n"
      then obtain e where "e \<in> set (headers r)" "toLowerCase (fst e) = toLowerCase n"
        by (auto simp: headers_has_def same_name_def)
      with 1 n show False by force
    qed
  qed
  from 1 2 t show ?thesis
    by (simp add: h u request_headers_origin request_headers_host)
qed


lemma lc_removed:
  "toLowerCase ''cf-ray'' = ''cf-ray''"
  "toLowerCase ''cf-connecting-ip'' = ''cf-connecting-ip''"
  "toLowerCase ''cf-visitor'' = ''cf-visitor''"
  "toLowerCase ''cf-request-id'' = ''cf-request-id''"
  "toLowerCase ''x-forwarded-for'' = ''x-forwarded-for''"
  "toLowerCase ''x-forwarded-proto'' = ''x-forwarded-proto''"
  "toLowerCase ''x-real-ip'' = ''x-real-ip''"
  by code_simp+

lemma CONFIG_keeps_host: "toLowerCase ''Host'' \<notin> toLowerCase ` set (REMOVE_HEADERS CONFIG)"
  by (simp add: CONFIG_def lc_removed lc_host_origin)

lemma query_target_resolves:
  "handleHTTP_target cfg query_target_url = Some ''https://example.test/data''"
  "parse_URL ''https://example.test/data'' =
     Inr \<lparr> protocol = ''https:'', username = [], password = [], host = ''example.test'',
           pathname = ''/data'', search = [], searchParams = [], hash = [] \<rparr>"
  by (simp_all add: handleHTTP_target_def query_target_url_def worker_url_def
        searchParams_get_def parse_URL_def Let_def startsWith_def parse_query_def)

theorem outbound_request_headers_witness:
  "toLowerCase ''Host'' \<notin> toLowerCase ` set (REMOVE_HEADERS CONFIG) \<and>
   headers_has (headers (get_request query_target_url)) ''cf-connecting-ip'' \<and>
   headers_has (headers (get_request query_target_url)) ''x-forwarded-for'' \<and>
   headers_has (headers (get_request query_target_url)) ''Origin'' \<and>
   headers_get (headers (get_request query_target_url)) ''Host'' = Some ''worker.example'' \<and>
   (\<exists>r. calls (handleHTTP CONFIG parse_URL echo_fetch (get_request query_target_url)
                  query_target_url) = [r]
      \<and> \<not> headers_has (headers r) ''cf-connecting-ip''
      \<and> \<not> headers_has (headers r) ''x-forwarded-for''
      \<and> \<not> headers_has (headers r) ''Origin''
      \<and> headers_get (headers r) ''Host'' = Some ''example.test'')"
proof -
  define target where "target =
    \<lparr> protocol = ''https:'', username = [], password = [], host = ''example.test'',
      pathname = ''/data'', search = [], searchParams = [], hash = [] \<rparr>"
  define r where "r = modifiedRequest CONFIG (get_request query_target_url) target"
  have c: "calls (handleHTTP CONFIG parse_URL echo_fetch (get_request query_target_url)
                    query_target_url) = [r]"
    by (simp add: handleHTTP_def query_target_resolves r_def target_def)
  have u: "host (url r) = ''example.test''"
    by (simp add: r_def modifiedRequest_def target_def)
  have m: "''cf-connecting-ip'' \<in> set (REMOVE_HEADERS CONFIG)"
          "''x-forwarded-for'' \<in> set (REMOVE_HEADERS CONFIG)"
    by (simp_all add: CONFIG_def)
  have i: "headers_has (headers (get_request query_target_url)) ''cf-connecting-ip''"
          "headers_has (headers (get_request query_target_url)) ''x-forwarded-for''"
          "headers_has (headers (get_request query_target_url)) ''Origin''"
          "headers_get (headers (get_request query_target_url)) ''Host'' = Some ''worker.example''"
    by code_simp+
  have "r \<in> set (calls (handleHTTP CONFIG parse_URL echo_fetch (get_request query_target_url)
                          query_target_url))"
    by (simp add: c)
  from outbound_request_headers [OF CONFIG_keeps_host this] m u
  have "\<not> headers_has (headers r) ''cf-connecting-ip''
      \<and> \<not> headers_has (headers r) ''x-forwarded-for''
      \<and> \<not> headers_has (headers r) ''Origin''
      \<and> headers_get (headers r) ''Host'' = Some ''example.test''"
    by simp
  with c i CONFIG_keeps_host show ?thesis by simp
qed

section \<open>Headers of the relayed response\<close>

lemma lc_security:
  "toLowerCase ''X-Content-Type-Options'' = ''x-content-type-options''"
  "toLowerCase ''X-Frame-Options'' = ''x-frame-options''"
  "toLowerCase ''X-XSS-Protection'' = ''x-xss-protection''"
  "toLowerCase ''Referrer-Policy'' = ''referrer-policy''"
  by code_simp+

lemma CONFIG_header_names_separate: "header_names_separate CONFIG"
  by (simp add: header_names_separate_def CONFIG_def lc_security lc_removed lc_cors_names)

lemma response_headers_removed:
  "e \<in> set (response_headers cfg hs) \<Longrightarrow>
     toLowerCase (fst e) \<notin> toLowerCase ` set (REMOVE_HEADERS cfg)"
  using set_fold_delete by (fastforce simp: response_headers_def Let_def)

lemma response_headers_has_removed:
  "n \<in> set (REMOVE_HEADERS cfg) \<Longrightarrow> \<not> headers_has (response_headers cfg hs) n"
  by (simp add: response_headers_def Let_def headers_has_fold_delete)

lemma response_headers_allow_origin:
  assumes "header_names_separate cfg" and "enabled (CORS cfg)"
  shows "headers_get (response_headers cfg hs) ''Access-Control-Allow-Origin''
           = Some (allowOrigin (CORS cfg))"
proof -
  from assms(1)
  have r: "toLowerCase ''Access-Control-Allow-Origin'' \<notin> toLowerCase ` set (REMOVE_HEADERS cfg)"
   and s: "toLowerCase ''Access-Control-Allow-Origin''
             \<notin> toLowerCase ` fst ` set (SECURITY_HEADERS cfg)"
    by (auto simp: header_names_separate_def Let_def image_iff)
  show ?thesis
    using r assms(2)
    by (simp add: response_headers_def Let_def headers_get_fold_delete
          headers_get_fold_set_other [OF s] headers_get_set lc_cors_names)
qed

lemma response_headers_security:
  assumes "header_names_separate cfg" and "(k, v) \<in> set (SECURITY_HEADERS cfg)"
  shows "headers_get (response_headers cfg hs) k = Some v"
proof -
  from assms(1) have d: "distinct (map (\<lambda>e. toLowerCase (fst e)) (SECURITY_HEADERS cfg))"
    by (simp add: header_names_separate_def Let_def)
  from assms have r: "toLowerCase k \<notin> toLowerCase ` set (REMOVE_HEADERS cfg)"
    by (force simp: header_names_separate_def Let_def)
  show ?thesis
    using r by (simp add: response_headers_def Let_def headers_get_fold_delete
          headers_get_fold_set_member [OF d assms(2)])
qed

lemma modifiedResponse_accepted:
  assumes "200 \<le> status response" and "status response \<le> 599"
      and "resp_body response = Null \<or> status response \<notin> {204, 205, 304}"
  shows "modifiedResponse cfg response =
           Inr \<lparr> status = status response, statusText = statusText response,
                 resp_headers = response_headers cfg (resp_headers response),
                 resp_body = resp_body response, webSocket = False \<rparr>"
  using assms by (auto simp: modifiedResponse_def new_Response_def)

lemma modifiedResponse_out_of_range:
  assumes "status response < 200 \<or> 599 < status response"
  shows "modifiedResponse cfg response =
           Inl ''Responses may only be constructed with status codes in the range 200 to 599, inclusive.''"
  using assms by (auto simp: modifiedResponse_def new_Response_def)

text \<open>
  What the worker does for the responses of the target that the \<open>Response\<close> constructor
  accepts: the reply keeps the target's status and body, and its headers are those of
  \<open>response_headers\<close>. If CORS is enabled, \<open>Access-Control-Allow-Origin\<close> is exactly the
  configured value, whatever the target had sent for it; every configured security header
  is present with its configured value; and no entry bears a name of the removal list,
  which is applied last. The configuration must keep its header names apart, as \<open>CONFIG\<close>
  does.
\<close>

theorem relayed_response_headers:
  assumes "header_names_separate cfg"
      and "handleHTTP_target cfg u = Some t" and "new_URL t = Inr target"
      and "fetch (modifiedRequest cfg request target) = Fulfilled d response"
      and "200 \<le> status response" and "status response \<le> 599"
      and "resp_body response = Null \<or> status response \<notin> {204, 205, 304}"
  shows "\<exists>r. completion (handleHTTP cfg new_URL fetch request u) = Returns d r
       \<and> status r = status response \<and> resp_body r = resp_body response
       \<and> (enabled (CORS cfg) \<longrightarrow>
            headers_get (resp_headers r) ''Access-Control-Allow-Origin''
              = Some (allowOrigin (CORS cfg)))
       \<and> (\<forall>(k, v) \<in> set (SECURITY_HEADERS cfg). headers_get (resp_headers r) k = Some v)
       \<and> (\<forall>e \<in> set (resp_headers r).
            toLowerCase (fst e) \<notin> toLowerCase ` set (REMOVE_HEADERS cfg))
       \<and> (\<forall>n \<in> set (REMOVE_HEADERS cfg). \<not> headers_has (resp_headers r) n)"
proof -
  let ?r = "\<lparr> status = status response, statusText = statusText response,
              resp_headers = response_headers cfg (resp_headers response),
              resp_body = resp_body response, webSocket = False \<rparr>"
  have m: "modifiedResponse cfg response = Inr ?r"
    using assms(5-7) by (rule modifiedResponse_accepted)
  have c: "completion (handleHTTP cfg new_URL fetch request u) = Returns d ?r"
    using assms(2-4) by (simp add: handleHTTP_def m)
  have h: "resp_headers ?r = response_headers cfg (resp_headers response)"
          "status ?r = status response" "resp_body ?r = resp_body response"
    by simp_all
  have 1: "enabled (CORS cfg) \<longrightarrow>
            headers_get (resp_headers ?r) ''Access-Control-Allow-Origin''
              = Some (allowOrigin (CORS cfg))"
    using response_headers_allow_origin [OF assms(1)] by (simp only: h) blast
  have 2: "\<forall>(k, v) \<in> set (SECURITY_HEADERS cfg). headers_get (resp_headers ?r) k = Some v"
    using response_headers_security [OF assms(1)] by (simp only: h) blast
  have 3: "\<forall>e \<in> set (resp_headers ?r).
            toLowerCase (fst e) \<notin> toLowerCase ` set (REMOVE_HEADERS cfg)"
    using response_headers_removed by (simp only: h) blast
  have 4: "\<forall>n \<in> set (REMOVE_HEADERS cfg). \<not> headers_has (resp_headers ?r) n"
    using response_headers_has_removed by (simp only: h) blast
  from c h(2,3) 1 2 3 4 show ?thesis by blast
qed

theorem relayed_response_headers_witness:
  "header_names_separate CONFIG \<and>
   headers_get (resp_headers echo_response) ''Access-Control-Allow-Origin''
     = Some ''https://evil.example'' \<and>
   headers_has (resp_headers echo_response) ''cf-ray'' \<and>
   (\<exists>r. completion (handleHTTP CONFIG parse_URL echo_fetch (get_request query_target_url)
                       query_target_url) = Returns 0 r
      \<and> status r = 200
      \<and> resp_body r = Stream ''payload''
      \<and> headers_get (resp_headers r) ''Access-Control-Allow-Origin'' = Some ''*''
      \<and> headers_get (resp_headers r) ''X-Frame-Options'' = Some ''SAMEORIGIN''
      \<and> \<not> headers_has (resp_headers r) ''cf-ray'')"
proof -
  have e: "headers_get (resp_headers echo_response) ''Access-Control-Allow-Origin''
             = Some ''https://evil.example''"
          "headers_has (resp_headers echo_response) ''cf-ray''"
    by code_simp+
  have c: "enabled (CORS CONFIG)" "allowOrigin (CORS CONFIG) = ''*''"
          "(''X-Frame-Options'', ''SAMEORIGIN'') \<in> set (SECURITY_HEADERS CONFIG)"
          "''cf-ray'' \<in> set (REMOVE_HEADERS CONFIG)"
    by (simp_all add: CONFIG_def)
  have s: "status echo_response = 200" "resp_body echo_response = Stream ''payload''"
    by (simp_all add: echo_response_def)
  have a: "200 \<le> status echo_response" "status echo_response \<le> 599"
          "resp_body echo_response = Null \<or> status echo_response \<notin> {204, 205, 304}"
    by (simp_all add: s)
  from relayed_response_headers
         [where fetch = echo_fetch and request = "get_request query_target_url"
            and new_URL = parse_URL and cfg = CONFIG and u = query_target_url,
          OF CONFIG_header_names_separate query_target_resolves echo_fetch_def a]
  obtain r where r:
    "completion (handleHTTP CONFIG parse_URL echo_fetch (get_request query_target_url)
                   query_target_url) = Returns 0 r"
    "status r = status echo_response" "resp_body r = resp_body echo_response"
    "enabled (CORS CONFIG) \<longrightarrow>
       headers_get (resp_headers r) ''Access-Control-Allow-Origin'' = Some (allowOrigin (CORS CONFIG))"
    "\<forall>(k, v) \<in> set (SECURITY_HEADERS CONFIG). headers_get (resp_headers r) k = Some v"
    "\<forall>n \<in> set (REMOVE_HEADERS CONFIG). \<not> headers_has (resp_headers r) n"
    by blast
  from r(4) c(1,2)
  have 1: "headers_get (resp_headers r) ''Access-Control-Allow-Origin'' = Some ''*''"
    by simp
  from r(5) c(3)
  have 2: "headers_get (resp_headers r) ''X-Frame-Options'' = Some ''SAMEORIGIN''"
    by blast
  from r(6) c(4) have 3: "\<not> headers_has (resp_headers r) ''cf-ray''"
    by blast
  from r(1,2,3) s 1 2 3 have "\<exists>r. completion (handleHTTP CONFIG parse_URL echo_fetch
        (get_request query_target_url) query_target_url) = Returns 0 r
      \<and> status r = 200
      \<and> resp_body r = Stream ''payload''
      \<and> headers_get (resp_headers r) ''Access-Control-Allow-Origin'' = Some ''*''
      \<and> headers_get (resp_headers r) ''X-Frame-Options'' = Some ''SAMEORIGIN''
      \<and> \<not> headers_has (resp_headers r) ''cf-ray''"
    by auto
  with CONFIG_header_names_separate e show ?thesis by blast
qed

lemma get_request_plain:
  "request_method (get_request u) \<noteq> ''OPTIONS''"
  "headers_get (headers (get_request u)) ''Upgrade'' = None"
  "url (get_request u) = u"
  by (simp add: get_request_def, code_simp, simp add: get_request_def)

lemma mixed_case_upgrade_is_not_upgrade:
  "request_method (mixed_case_upgrade_request u) \<noteq> ''OPTIONS''"
  "headers_get (headers (mixed_case_upgrade_request u)) ''Upgrade'' = Some ''WebSocket''"
  "url (mixed_case_upgrade_request u) = u"
  by (simp_all add: mixed_case_upgrade_request_def headers_get_def same_name_def lc_upgrade)

lemma worker_built_headers:
  "resp_headers (handleError cfg message) = resp_headers (createInfoResponse cfg)"
  by (simp add: handleError_def createInfoResponse_def)

lemma lc_built:
  "toLowerCase ''Content-Type'' = ''content-type''"
  "toLowerCase ''content-type'' = ''content-type''"
  "toLowerCase ''x-content-type-options'' = ''x-content-type-options''"
  "toLowerCase ''x-frame-options'' = ''x-frame-options''"
  "toLowerCase ''x-xss-protection'' = ''x-xss-protection''"
  "toLowerCase ''referrer-policy'' = ''referrer-policy''"
  by code_simp+

lemma info_response_without_allow_origin:
  "headers_get (resp_headers (createInfoResponse CONFIG)) ''Access-Control-Allow-Origin'' = None"
  by (simp add: createInfoResponse_def CONFIG_def object_spread_def new_Headers_def
        headers_append_def headers_get_def same_name_def lc_built lc_security lc_cors_names)

text \<open>
  C6 requires every response that the HTTP relay returns to carry, when CORS is enabled,
  \<open>Access-Control-Allow-Origin\<close> with the configured value. The worker sets the CORS headers
  only on the response it builds from the target's response. With CORS enabled in
  \<open>CONFIG\<close>, the error response for \<open>GET /?target=not-a-url\<close>, the informational response
  for \<open>GET /api/items?page=2\<close>, and the error response for a target that answers with
  status 101, which the \<open>Response\<close> constructor refuses, carry no
  \<open>Access-Control-Allow-Origin\<close>.
\<close>

theorem responses_without_allow_origin:
  "enabled (CORS CONFIG) \<and>
   completion (worker_fetch CONFIG parse_URL dial echo_fetch (get_request malformed_target_url))
     = Returns 0 (handleError CONFIG ''Invalid URL: not-a-url'') \<and>
   status (handleError CONFIG ''Invalid URL: not-a-url'') = 500 \<and>
   headers_get (resp_headers (handleError CONFIG ''Invalid URL: not-a-url''))
     ''Access-Control-Allow-Origin'' = None \<and>
   completion (worker_fetch CONFIG parse_URL dial echo_fetch (get_request plain_url))
     = Returns 0 (createInfoResponse CONFIG) \<and>
   status (createInfoResponse CONFIG) = 200 \<and>
   headers_get (resp_headers (createInfoResponse CONFIG)) ''Access-Control-Allow-Origin'' = None \<and>
   status switching_response = 101 \<and>
   completion (worker_fetch CONFIG parse_URL dial switching_fetch
                 (mixed_case_upgrade_request query_target_url))
     = Returns 0 (handleError CONFIG
         ''Responses may only be constructed with status codes in the range 200 to 599, inclusive.'') \<and>
   headers_get (resp_headers (handleError CONFIG
         ''Responses may only be constructed with status codes in the range 200 to 599, inclusive.''))
     ''Access-Control-Allow-Origin'' = None"
proof -
  have e: "enabled (CORS CONFIG)"
    by (simp add: CONFIG_def)
  have t: "handleHTTP_target CONFIG malformed_target_url = Some ''not-a-url''"
    by (simp add: malformed_target_url_def worker_url_def searchParams_get_def
          handleHTTP_target_def)
  have u: "parse_URL ''not-a-url'' = Inl ''Invalid URL: not-a-url''"
    by (simp add: parse_URL_def Let_def startsWith_def)
  have 1: "completion (worker_fetch CONFIG parse_URL dial echo_fetch
                         (get_request malformed_target_url))
             = Returns 0 (handleError CONFIG ''Invalid URL: not-a-url'')"
    by (simp add: worker_fetch_def get_request_plain handleHTTP_def t u)
  have n: "handleHTTP_target CONFIG plain_url = None"
    by (simp add: plain_url_def worker_url_def searchParams_get_def handleHTTP_target_def
          substring1_def startsWith_def CONFIG_def)
  have 2: "completion (worker_fetch CONFIG parse_URL dial echo_fetch (get_request plain_url))
             = Returns 0 (createInfoResponse CONFIG)"
    by (simp add: worker_fetch_def get_request_plain handleHTTP_def n)
  have s: "status switching_response = 101"
    by (simp add: switching_response_def)
  have r: "modifiedResponse CONFIG switching_response =
             Inl ''Responses may only be constructed with status codes in the range 200 to 599, inclusive.''"
    by (rule modifiedResponse_out_of_range) (simp add: s)
  have 3: "completion (worker_fetch CONFIG parse_URL dial switching_fetch
                         (mixed_case_upgrade_request query_target_url))
             = Returns 0 (handleError CONFIG
                 ''Responses may only be constructed with status codes in the range 200 to 599, inclusive.'')"
    by (simp add: worker_fetch_def mixed_case_upgrade_is_not_upgrade handleHTTP_def
          query_target_resolves switching_fetch_def r)
  have h: "headers_get (resp_headers (handleError CONFIG message))
             ''Access-Control-Allow-Origin'' = None" for message
    by (simp only: worker_built_headers info_response_without_allow_origin)
  have st: "status (handleError CONFIG ''Invalid URL: not-a-url'') = 500"
           "status (createInfoResponse CONFIG) = 200"
    by (simp_all add: handleError_def createInfoResponse_def)
  from e 1 2 3 s h st info_response_without_allow_origin show ?thesis
    by (intro conjI)
qed

section \<open>The outbound call and the configured timeout\<close>

lemma TIMEOUT_not_read_parts:
  "handleHTTP_target (cfg\<lparr>TIMEOUT := n\<rparr>) u = handleHTTP_target cfg u"
  "createInfoResponse (cfg\<lparr>TIMEOUT := n\<rparr>) = createInfoResponse cfg"
  "handleError (cfg\<lparr>TIMEOUT := n\<rparr>) message = handleError cfg message"
  "handleCORS (cfg\<lparr>TIMEOUT := n\<rparr>) = handleCORS cfg"
  "modifiedRequest (cfg\<lparr>TIMEOUT := n\<rparr>) request target = modifiedRequest cfg request target"
  "modifiedResponse (cfg\<lparr>TIMEOUT := n\<rparr>) response = modifiedResponse cfg response"
  by (simp_all add: handleHTTP_target_def Let_def createInfoResponse_def handleError_def
        handleCORS_def modifiedRequest_def modifiedResponse_def new_Response_def
        request_headers_def response_headers_def)

lemma TIMEOUT_not_read:
  "worker_fetch (cfg\<lparr>TIMEOUT := n\<rparr>) new_URL new_WebSocket fetch request =
   worker_fetch cfg new_URL new_WebSocket fetch request"
  by (simp add: worker_fetch_def handleHTTP_def TIMEOUT_not_read_parts
        split: option.splits sum.splits fetch_outcome.splits)

lemma rejected_fetch:
  assumes "handleHTTP_target cfg u = Some t" and "new_URL t = Inr target"
      and "fetch (modifiedRequest cfg request target) = Rejected d message"
  shows "completion (handleHTTP cfg new_URL fetch request u) = Returns d (handleError cfg message)"
  using assms by (simp add: handleHTTP_def)

text \<open>
  C8 requires the outbound call to be abandoned at the configured timeout, with a JSON
  error as the answer. The worker declares \<open>TIMEOUT\<close> and never reads it (lemma
  \<open>TIMEOUT_not_read\<close>): \<open>handleHTTP\<close> awaits the outbound call without a deadline. With
  the timeout of 30000 ms of \<open>CONFIG\<close>, a target that answers after 60000 ms is not
  abandoned, its response is relayed with status 200 at 60000 ms; and when the outbound
  call never settles, the handler never returns.
\<close>

theorem timeout_not_enforced:
  "TIMEOUT CONFIG = 30000 \<and>
   (\<exists>r. modifiedResponse CONFIG late_response = Inr r \<and>
        completion (worker_fetch CONFIG parse_URL dial slow_fetch (get_request query_target_url))
          = Returns 60000 r \<and>
        status r = 200 \<and>
        resp_body r = Stream ''late'') \<and>
   completion (worker_fetch CONFIG parse_URL dial silent_fetch (get_request query_target_url))
     = NeverReturns"
proof -
  let ?r = "\<lparr> status = status late_response, statusText = statusText late_response,
              resp_headers = response_headers CONFIG (resp_headers late_response),
              resp_body = resp_body late_response, webSocket = False \<rparr>"
  have t: "TIMEOUT CONFIG = 30000"
    by (simp add: CONFIG_def)
  have l: "status late_response = 200" "resp_body late_response = Stream ''late''"
    by (simp_all add: late_response_def)
  have m: "modifiedResponse CONFIG late_response = Inr ?r"
    by (rule modifiedResponse_accepted) (simp_all add: l)
  have 1: "completion (worker_fetch CONFIG parse_URL dial slow_fetch
                         (get_request query_target_url)) = Returns 60000 ?r"
    by (simp add: worker_fetch_def get_request_plain handleHTTP_def query_target_resolves
          slow_fetch_def m)
  have 2: "completion (worker_fetch CONFIG parse_URL dial silent_fetch
                         (get_request query_target_url)) = NeverReturns"
    by (simp add: worker_fetch_def get_request_plain handleHTTP_def query_target_resolves
          silent_fetch_def)
  have 3: "status ?r = 200" "resp_body ?r = Stream ''late''"
    by (simp_all add: l)
  from m 1 3 have "\<exists>r. modifiedResponse CONFIG late_response = Inr r \<and>
        completion (worker_fetch CONFIG parse_URL dial slow_fetch (get_request query_target_url))
          = Returns 60000 r \<and> status r = 200 \<and> resp_body r = Stream ''late''"
    by blast
  with t 2 show ?thesis by blast
qed

end
